theory Spec2Isabelle
  imports Main "HOL-Library.Word"
begin

section \<open>Values of the scripts\<close>

text \<open>
  The repository is a set of TypeScript scripts that drive three kinds of external
  libraries: viem and ethers (wallets, JSON-RPC clients and byte/hex utilities) and
  two KZG backends (the native c-kzg and the WASM build kzg-wasm). The code of the
  scripts themselves is the sequencing of those calls, a handful of comparisons and the errors
  thrown when a comparison fails.

  A \<open>Uint8Array\<close> is a list of 8-bit words. A JavaScript string is a \<open>string\<close> whose
  characters are read as code units below 256 (ASCII and Latin-1); viem's type \<open>Hex\<close>
  is a string at run time.
\<close>

type_synonym byte = "8 word"
type_synonym bytes = "byte list"
type_synonym hex = string

subsection \<open>Errors\<close>

text \<open>
  \<open>Error m\<close> is \<open>throw new Error(m)\<close> written in a script. \<open>TypeError\<close> and
  \<open>RangeError\<close> are raised by the JavaScript runtime on an operation written in a
  script (reading a property of \<open>undefined\<close>, a typed-array \<open>set\<close> past the end).
  \<open>External m\<close> is an exception thrown inside a library call; the scripts contain no
  \<open>try\<close>/\<open>catch\<close>, so each of them ends the run.
\<close>

datatype error =
    Error string
  | TypeError
  | RangeError
  | External string

subsection \<open>Calls to the libraries\<close>

text \<open>
  Every call into a KZG backend, a wallet or account, or a JSON-RPC client is recorded
  in the order in which the script performs it. The byte/hex utilities of viem and
  ethers (\<open>hexToBytes\<close>, \<open>bytesToHex\<close>, \<open>sha256\<close>, \<open>toBlobs\<close>, ...) compute on
  their arguments only and are not recorded.
\<close>

datatype event =
    PrivateKeyToAccount
  | CreateWalletClient
  | CreatePublicClient
  | C_loadTrustedSetup
  | LoadKZG
  | W_loadTrustedSetup
  | C_blobToKzgCommitment
  | C_computeBlobKzgProof
  | C_verifyBlobKzgProof
  | C_computeKzgProof
  | C_verifyKzgProof
  | C_computeCellsAndKzgProofs
  | C_verifyCellKzgProofBatch
  | C_recoverCellsAndKzgProofs
  | W_blobToKZGCommitment
  | W_computeBlobKZGProof
  | W_verifyBlobKZGProof
  | W_computeCellsAndKZGProofs
  | PrepareTransactionRequest
  | SignTransaction
  | SendRawTransaction
  | SendTransaction
  | GetTransaction
  | Call
  | Timeout nat
  | NewJsonRpcProvider
  | NewWallet
  | GetFeeData
  | GetAddress
  | GetTransactionCount
  | WalletSignTransaction
  | ProviderSend string

text \<open>A call into one of the two KZG libraries, the loading of a backend included.\<close>

fun is_kzg_call :: "event \<Rightarrow> bool" where
  "is_kzg_call C_loadTrustedSetup = True"
| "is_kzg_call LoadKZG = True"
| "is_kzg_call W_loadTrustedSetup = True"
| "is_kzg_call C_blobToKzgCommitment = True"
| "is_kzg_call C_computeBlobKzgProof = True"
| "is_kzg_call C_verifyBlobKzgProof = True"
| "is_kzg_call C_computeKzgProof = True"
| "is_kzg_call C_verifyKzgProof = True"
| "is_kzg_call C_computeCellsAndKzgProofs = True"
| "is_kzg_call C_verifyCellKzgProofBatch = True"
| "is_kzg_call C_recoverCellsAndKzgProofs = True"
| "is_kzg_call W_blobToKZGCommitment = True"
| "is_kzg_call W_computeBlobKZGProof = True"
| "is_kzg_call W_verifyBlobKZGProof = True"
| "is_kzg_call W_computeCellsAndKZGProofs = True"
| "is_kzg_call _ = False"

text \<open>The three calls that only load a backend or its trusted setup.\<close>

fun is_kzg_setup :: "event \<Rightarrow> bool" where
  "is_kzg_setup C_loadTrustedSetup = True"
| "is_kzg_setup LoadKZG = True"
| "is_kzg_setup W_loadTrustedSetup = True"
| "is_kzg_setup _ = False"

text \<open>A call that sends a JSON-RPC request to the remote node.\<close>

fun is_network_call :: "event \<Rightarrow> bool" where
  "is_network_call PrepareTransactionRequest = True"
| "is_network_call SendRawTransaction = True"
| "is_network_call SendTransaction = True"
| "is_network_call GetTransaction = True"
| "is_network_call Call = True"
| "is_network_call GetFeeData = True"
| "is_network_call GetTransactionCount = True"
| "is_network_call (ProviderSend _) = True"
| "is_network_call _ = False"

subsection \<open>Runs\<close>

text \<open>
  A run of a piece of script is the list of recorded calls it performed and its
  outcome: \<open>Inl e\<close> when it stopped by throwing \<open>e\<close>, \<open>Inr v\<close> when it reached its end
  with value \<open>v\<close>. \<open>bind\<close> is sequencing: an exception skips everything after it.
\<close>

type_synonym 'a run = "event list \<times> (error + 'a)"

definition ret :: "'a \<Rightarrow> 'a run" where
  "ret v = ([], Inr v)"

definition throw :: "error \<Rightarrow> 'a run" where
  "throw e = ([], Inl e)"

definition bind :: "'a run \<Rightarrow> ('a \<Rightarrow> 'b run) \<Rightarrow> 'b run" where
  "bind m f =
     (case m of
        (t, Inl e) \<Rightarrow> (t, Inl e)
      | (t, Inr v) \<Rightarrow> (case f v of (t', r) \<Rightarrow> (t @ t', r)))"

text \<open>
  The result of a library call is given by the library: \<open>Inl m\<close> when the call throws
  (with message \<open>m\<close>), \<open>Inr v\<close> when it returns \<open>v\<close>. \<open>ext\<close> is a recorded call,
  \<open>util\<close> an unrecorded one.
\<close>

definition lift_result :: "string + 'a \<Rightarrow> error + 'a" where
  "lift_result r = (case r of Inl m \<Rightarrow> Inl (External m) | Inr v \<Rightarrow> Inr v)"

definition ext :: "event \<Rightarrow> string + 'a \<Rightarrow> 'a run" where
  "ext ev r = ([ev], lift_result r)"

definition util :: "string + 'a \<Rightarrow> 'a run" where
  "util r = ([], lift_result r)"

text \<open>An operation of the script itself that ends in a value or in an exception.\<close>

definition lift :: "error + 'a \<Rightarrow> 'a run" where
  "lift r = ([], r)"

text \<open>The trace and the outcome of a run.\<close>

definition trace :: "'a run \<Rightarrow> event list" where
  "trace m = fst m"

definition outcome :: "'a run \<Rightarrow> error + 'a" where
  "outcome m = snd m"

section \<open>JavaScript built-ins used by the scripts\<close>

text \<open>
  \<open>String.prototype.toLowerCase\<close> on code units below 256: the letters A to Z and
  the Latin-1 capitals U+00C0 to U+00DE (the multiplication sign U+00D7 excepted) move up
  by 32, every other code unit is unchanged.
\<close>

definition toLowerChar :: "char \<Rightarrow> char" where
  "toLowerChar c =
     (let n = (of_char c :: nat)
      in if (65 \<le> n \<and> n \<le> 90) \<or> (192 \<le> n \<and> n \<le> 222 \<and> n \<noteq> 215)
         then char_of (n + 32) else c)"

definition toLowerCase :: "string \<Rightarrow> string" where
  "toLowerCase s = map toLowerChar s"

text \<open>
  \<open>a[i]\<close> on an array: \<open>undefined\<close> (here \<open>None\<close>) out of range.
\<close>

definition index :: "'a list \<Rightarrow> nat \<Rightarrow> 'a option" where
  "index xs i = (if i < length xs then Some (xs ! i) else None)"

text \<open>
  \<open>a.slice(from, to)\<close> on an array or typed array, for non-negative bounds.
\<close>

definition slice_list :: "'a list \<Rightarrow> nat \<Rightarrow> nat \<Rightarrow> 'a list" where
  "slice_list xs from to = take (to - from) (drop from xs)"

text \<open>
  \<open>Array.from({ length: n }, (_, i) => i)\<close>.
\<close>

definition indices_from :: "nat \<Rightarrow> nat list" where
  "indices_from n = [0..<n]"

text \<open>
  \<open>new Uint8Array(n)\<close> is \<open>n\<close> zero bytes. \<open>target.set(source, offset)\<close> copies
  \<open>source\<close> into \<open>target\<close> from \<open>offset\<close> on and throws a RangeError when the source
  does not fit.
\<close>

definition new_Uint8Array :: "nat \<Rightarrow> bytes" where
  "new_Uint8Array n = replicate n 0"

definition set_bytes :: "bytes \<Rightarrow> bytes \<Rightarrow> nat \<Rightarrow> error + bytes" where
  "set_bytes target source offset =
     (if offset + length source > length target then Inl RangeError
      else Inr (take offset target @ source @ drop (offset + length source) target))"

text \<open>
  \<open>a[0] = b[0]\<close> on two typed arrays: a read out of range is \<open>undefined\<close>, which a
  typed array stores as 0; a write out of range is ignored.
\<close>

definition assign_first :: "bytes \<Rightarrow> bytes \<Rightarrow> bytes" where
  "assign_first a b = a[0 := (case b of [] \<Rightarrow> 0 | x # _ \<Rightarrow> x)]"

section \<open>Helpers shared by the experiment scripts\<close>

text \<open>
  \<^verbatim>\<open>function equalHex(a: Hex, b: Hex) { return a.toLowerCase() === b.toLowerCase(); }\<close>
  An argument that is \<open>undefined\<close> at run time (\<open>None\<close>) makes the method call throw a
  TypeError; \<open>a\<close> is evaluated first.
\<close>

definition equalHex :: "hex option \<Rightarrow> hex option \<Rightarrow> error + bool" where
  "equalHex a b =
     (case a of
        None \<Rightarrow> Inl TypeError
      | Some a' \<Rightarrow>
          (case b of
             None \<Rightarrow> Inl TypeError
           | Some b' \<Rightarrow> Inr (toLowerCase a' = toLowerCase b')))"

text \<open>
  The value of a hexadecimal digit, in either case; \<open>None\<close> for any other character.
  A hex string denotes the sequence of the values of its digits.
\<close>

definition hexDigitValue :: "char \<Rightarrow> nat option" where
  "hexDigitValue c =
     (let n = (of_char c :: nat)
      in if 48 \<le> n \<and> n \<le> 57 then Some (n - 48)
         else if 65 \<le> n \<and> n \<le> 70 then Some (n - 55)
         else if 97 \<le> n \<and> n \<le> 102 then Some (n - 87)
         else None)"

definition same_digits :: "string \<Rightarrow> string \<Rightarrow> bool" where
  "same_digits a b =
     list_all2 (\<lambda>c d. hexDigitValue c \<noteq> None \<and> hexDigitValue c = hexDigitValue d) a b"

section \<open>The libraries\<close>

text \<open>
  The libraries are not part of the repository. Each function a script calls is a field
  of a record, so every statement below holds for whatever the libraries compute. A
  function that can throw returns \<open>Inl\<close> of the exception's message.
\<close>

subsection \<open>Objects exchanged with viem\<close>

record sidecar =
  sidecar_blob :: hex
  sidecar_commitment :: hex
  sidecar_proof :: hex

text \<open>The \<open>kzg\<close> argument of viem's transaction calls: the two functions viem requires.\<close>

record kzg_interface =
  kzg_blobToKzgCommitment :: "bytes \<Rightarrow> string + bytes"
  kzg_computeBlobKzgProof :: "bytes \<Rightarrow> bytes \<Rightarrow> string + bytes"

text \<open>
  The argument object of \<open>prepareTransactionRequest\<close> and \<open>sendTransaction\<close>, with the
  fields the scripts give.
\<close>

record 'a transaction_args =
  arg_account :: 'a
  arg_blobs :: "hex list"
  arg_kzg :: kzg_interface
  arg_maxFeePerBlobGas :: int
  arg_to :: string
  arg_type :: string
  arg_sidecars :: "sidecar list option"

text \<open>
  The prepared request and the transaction fetched from the node. The scripts read one
  field of each, which the types allow to be \<open>undefined\<close>; the other fields of a
  request are the extension of the record.
\<close>

record request =
  blobVersionedHashes :: "hex list option"

record transaction =
  tx_blobVersionedHashes :: "hex list option"

subsection \<open>viem\<close>

text \<open>
  \<open>sha256\<close> takes a \<open>Hex\<close> string (\<open>Inl\<close>) or a byte array (\<open>Inr\<close>) and returns \<open>Hex\<close>.
\<close>

record ('a, 'r) viem_lib =
  hexToBytes :: "hex \<Rightarrow> string + bytes"
  bytesToHex :: "bytes \<Rightarrow> hex"
  sha256 :: "hex + bytes \<Rightarrow> string + hex"
  stringToHex :: "string \<Rightarrow> hex"
  toBlobs :: "hex \<Rightarrow> string + hex list"
  concat_hex :: "hex list \<Rightarrow> hex"
  parseGwei :: "string \<Rightarrow> string + int"
  parseTransaction :: "hex \<Rightarrow> string + unit"
  privateKeyToAccount :: "hex \<Rightarrow> string + 'a"
  createWalletClient :: "'a \<Rightarrow> string + unit"
  createPublicClient :: "string + unit"
  signTransaction :: "'a \<Rightarrow> 'r request_scheme \<Rightarrow> string + hex"
  prepareTransactionRequest :: "'a transaction_args \<Rightarrow> string + 'r request_scheme"
  sendRawTransaction :: "hex \<Rightarrow> string + hex"
  sendTransaction :: "'a transaction_args \<Rightarrow> string + hex"
  getTransaction :: "hex \<Rightarrow> string + transaction option"
  call :: "string \<Rightarrow> hex \<Rightarrow> string + unit"

subsection \<open>c-kzg\<close>

record ckzg_lib =
  loadTrustedSetup :: "nat \<Rightarrow> string \<Rightarrow> string + unit"
  blobToKzgCommitment :: "bytes \<Rightarrow> string + bytes"
  computeBlobKzgProof :: "bytes \<Rightarrow> bytes \<Rightarrow> string + bytes"
  verifyBlobKzgProof :: "bytes \<Rightarrow> bytes \<Rightarrow> bytes \<Rightarrow> string + bool"
  computeKzgProof :: "bytes \<Rightarrow> bytes \<Rightarrow> string + bytes \<times> bytes"
  verifyKzgProof :: "bytes \<Rightarrow> bytes \<Rightarrow> bytes \<Rightarrow> bytes \<Rightarrow> string + bool"
  computeCellsAndKzgProofs :: "bytes \<Rightarrow> string + bytes list \<times> bytes list"
  verifyCellKzgProofBatch ::
    "bytes list \<Rightarrow> nat list \<Rightarrow> bytes list \<Rightarrow> bytes list \<Rightarrow> string + bool"
  recoverCellsAndKzgProofs :: "nat list \<Rightarrow> bytes list \<Rightarrow> string + bytes list \<times> bytes list"
  CELLS_PER_EXT_BLOB :: nat

subsection \<open>kzg-wasm\<close>

record cells_and_proofs =
  cells :: "hex list"
  proofs :: "hex list"

text \<open>
  The three fields named \<open>_undefined\<close> are the same three functions of the library called
  with \<open>undefined\<close> in the place of the blob, which is what \<open>blobs[0]\<close> of an empty
  list hands them in \<open>KZGProofVerification\<close>.
\<close>

record wasm_lib =
  loadTrustedSetup_wasm :: "nat \<Rightarrow> string + unit"
  blobToKZGCommitment :: "hex \<Rightarrow> string + hex"
  computeBlobKZGProof :: "hex \<Rightarrow> hex \<Rightarrow> string + hex"
  verifyBlobKZGProof :: "hex \<Rightarrow> hex \<Rightarrow> hex \<Rightarrow> string + bool"
  computeCellsAndKZGProofs :: "hex \<Rightarrow> string + cells_and_proofs"
  blobToKZGCommitment_undefined :: "string + hex"
  computeBlobKZGProof_undefined :: "hex \<Rightarrow> string + hex"
  verifyBlobKZGProof_undefined :: "hex \<Rightarrow> hex \<Rightarrow> string + bool"

subsection \<open>The world of the viem scripts\<close>

text \<open>
  \<open>loadKZG\<close> is the export of kzg-wasm: it returns the backend object. \<open>rootsOfUnity\<close>
  is the bundled JSON table the second experiment script imports.
\<close>

record ('a, 'r) world =
  viem :: "('a, 'r) viem_lib"
  cKzg :: ckzg_lib
  loadKZG :: "string + wasm_lib"
  rootsOfUnity :: "string list"

section \<open>The experiment scripts\<close>

text \<open>
  \<open>src/index.ts\<close> and the second experiment script share the function
  \<open>experimentWithBlob\<close>: the first runs experiments 1 to 6, the second experiments
  1 to 8 with another payload and another evaluation point. Console output, the timing
  calls (\<open>process.hrtime\<close>) and \<open>JSON.stringify\<close> with its replacer are left out;
  a library call inside a logged expression is kept.
\<close>

definition POINT_EVALUATION_PRECOMPILE_ADDRESS :: string where
  "POINT_EVALUATION_PRECOMPILE_ADDRESS = ''0x000000000000000000000000000000000000000A''"

text \<open>
  The path handed to \<open>cKzg.loadTrustedSetup\<close>, as written; \<open>resolve\<close> makes it
  absolute at run time.
\<close>

definition mainnetTrustedSetupPath :: string where
  "mainnetTrustedSetupPath = ''./node_modules/viem/trusted-setups/mainnet.json''"

text \<open>\<open>timeout(ms)\<close>: the script waits.\<close>

definition timeout :: "nat \<Rightarrow> unit run" where
  "timeout ms = ([Timeout ms], Inr ())"

text \<open>
  \<open>x.blobVersionedHashes![0]\<close>: a TypeError when the field is \<open>undefined\<close>,
  \<open>undefined\<close> when the list is empty.
\<close>

definition first_versioned_hash :: "hex list option \<Rightarrow> hex option run" where
  "first_versioned_hash hs =
     (case hs of None \<Rightarrow> throw TypeError | Some l \<Rightarrow> ret (index l 0))"

text \<open>
  \<open>const v = hexToBytes(sha256(c)); v[0] = VERSIONED_HASH_VERSION_KZG[0]\<close>, the hash
  written out by hand in experiments 2 and 3. \<open>V\<close> is the module constant
  \<open>VERSIONED_HASH_VERSION_KZG = hexToBytes('0x01')\<close>, evaluated once when the script
  is loaded.
\<close>

definition manual_versioned_hash ::
  "('a, 'r) world \<Rightarrow> bytes \<Rightarrow> hex + bytes \<Rightarrow> bytes run" where
  "manual_versioned_hash W V c =
     bind (util (sha256 (viem W) c)) (\<lambda>h.
     bind (util (hexToBytes (viem W) h)) (\<lambda>hb.
     ret (assign_first hb V)))"

text \<open>\<open>if (!equalHex(a, b)) throw new Error(msg)\<close>.\<close>

definition require_equalHex :: "hex option \<Rightarrow> hex option \<Rightarrow> string \<Rightarrow> unit run" where
  "require_equalHex a b msg =
     (case equalHex a b of
        Inl e \<Rightarrow> throw e
      | Inr same \<Rightarrow> if \<not> same then throw (Error msg) else ret ())"

subsection \<open>Experiment 1: the blob transaction\<close>

text \<open>The argument of \<open>prepareTransactionRequest\<close>: the blob with its sidecar.\<close>

definition blob_transaction_args ::
  "('a, 'r) world \<Rightarrow> 'a \<Rightarrow> hex list \<Rightarrow> hex \<Rightarrow> hex \<Rightarrow> hex \<Rightarrow> int \<Rightarrow> 'a transaction_args" where
  "blob_transaction_args W account blobs blob commitment proof' fee =
     \<lparr> arg_account = account,
       arg_blobs = blobs,
       arg_kzg = \<lparr> kzg_blobToKzgCommitment = blobToKzgCommitment (cKzg W),
                   kzg_computeBlobKzgProof = computeBlobKzgProof (cKzg W) \<rparr>,
       arg_maxFeePerBlobGas = fee,
       arg_to = ''0x0000000000000000000000000000000000000000'',
       arg_type = ''eip4844'',
       arg_sidecars = Some [\<lparr> sidecar_blob = blob,
                               sidecar_commitment = commitment,
                               sidecar_proof = proof' \<rparr>] \<rparr>"

text \<open>
  After the transaction is sent: wait, fetch it, and compare its first versioned hash
  (\<open>transaction?.blobVersionedHashes![0]\<close>, \<open>undefined\<close> when there is no
  transaction) with the prepared one.
\<close>

definition send_and_compare :: "('a, 'r) world \<Rightarrow> hex \<Rightarrow> hex option \<Rightarrow> unit run" where
  "send_and_compare W serializedTx versionedHash =
     bind (ext SendRawTransaction (sendRawTransaction (viem W) serializedTx)) (\<lambda>txHash.
     bind (timeout 5000) (\<lambda>_.
     bind (ext GetTransaction (getTransaction (viem W) txHash)) (\<lambda>transaction'.
     bind (case transaction' of
             None \<Rightarrow> ret None
           | Some t \<Rightarrow> first_versioned_hash (tx_blobVersionedHashes t)) (\<lambda>onChain.
     require_equalHex versionedHash onChain ''Versioned hash mismatch''))))"

definition experiment1 ::
  "('a, 'r) world \<Rightarrow> 'a \<Rightarrow> hex list \<Rightarrow> hex \<Rightarrow> bool \<Rightarrow> (hex option \<times> hex \<times> hex) run" where
  "experiment1 W account blobs blob sendTransaction' =
     bind (util (hexToBytes (viem W) blob)) (\<lambda>bb.
     bind (ext C_blobToKzgCommitment (blobToKzgCommitment (cKzg W) bb)) (\<lambda>c.
     let commitment = bytesToHex (viem W) c in
     bind (util (hexToBytes (viem W) blob)) (\<lambda>bb'.
     bind (util (hexToBytes (viem W) commitment)) (\<lambda>cb.
     bind (ext C_computeBlobKzgProof (computeBlobKzgProof (cKzg W) bb' cb)) (\<lambda>p.
     let proof' = bytesToHex (viem W) p in
     bind (util (parseGwei (viem W) ''30'')) (\<lambda>fee.
     bind (ext PrepareTransactionRequest (prepareTransactionRequest (viem W)
            (blob_transaction_args W account blobs blob commitment proof' fee))) (\<lambda>request.
     bind (first_versioned_hash (blobVersionedHashes request)) (\<lambda>versionedHash.
     bind (ext SignTransaction (signTransaction (viem W) account request)) (\<lambda>serializedTx.
     bind (util (parseTransaction (viem W) serializedTx)) (\<lambda>_.
     bind (if sendTransaction' then send_and_compare W serializedTx versionedHash
           else ret ()) (\<lambda>_.
     ret (versionedHash, commitment, proof'))))))))))))"

subsection \<open>Experiment 2: the versioned hash by hand\<close>

definition experiment2 :: "('a, 'r) world \<Rightarrow> bytes \<Rightarrow> hex \<Rightarrow> hex option \<Rightarrow> unit run" where
  "experiment2 W V blob versionedHash =
     bind (util (hexToBytes (viem W) blob)) (\<lambda>bb.
     bind (ext C_blobToKzgCommitment (blobToKzgCommitment (cKzg W) bb)) (\<lambda>commitment.
     bind (manual_versioned_hash W V (Inr commitment)) (\<lambda>versionedHash'.
     require_equalHex (Some (bytesToHex (viem W) versionedHash')) versionedHash
       ''versioned hash mismatch'')))"

subsection \<open>Experiment 3: verification without and with the proof\<close>

definition experiment3_without_proof ::
  "('a, 'r) world \<Rightarrow> bytes \<Rightarrow> hex \<Rightarrow> hex option \<Rightarrow> unit run" where
  "experiment3_without_proof W V blob versionedHash =
     bind (util (hexToBytes (viem W) blob)) (\<lambda>bb.
     bind (ext C_blobToKzgCommitment (blobToKzgCommitment (cKzg W) bb)) (\<lambda>commitment.
     bind (manual_versioned_hash W V (Inr commitment)) (\<lambda>versionedHash'.
     require_equalHex (Some (bytesToHex (viem W) versionedHash')) versionedHash
       ''Versioned hash mismatch'')))"

definition experiment3_with_proof ::
  "('a, 'r) world \<Rightarrow> bytes \<Rightarrow> hex \<Rightarrow> hex option \<Rightarrow> hex \<Rightarrow> hex \<Rightarrow> unit run" where
  "experiment3_with_proof W V blob versionedHash commitment proof' =
     bind (manual_versioned_hash W V (Inl commitment)) (\<lambda>versionedHash'.
     bind (util (hexToBytes (viem W) blob)) (\<lambda>bb.
     bind (util (hexToBytes (viem W) commitment)) (\<lambda>cb.
     bind (util (hexToBytes (viem W) proof')) (\<lambda>pb.
     bind (ext C_verifyBlobKzgProof (verifyBlobKzgProof (cKzg W) bb cb pb)) (\<lambda>isValid.
     bind (require_equalHex (Some (bytesToHex (viem W) versionedHash')) versionedHash
             ''Versioned hash mismatch'') (\<lambda>_.
     if \<not> isValid then throw (Error ''Proof verification failed'') else ret ()))))))"

definition experiment3 ::
  "('a, 'r) world \<Rightarrow> bytes \<Rightarrow> hex \<Rightarrow> hex option \<Rightarrow> hex \<Rightarrow> hex \<Rightarrow> unit run" where
  "experiment3 W V blob versionedHash commitment proof' =
     bind (experiment3_without_proof W V blob versionedHash) (\<lambda>_.
     experiment3_with_proof W V blob versionedHash commitment proof')"

subsection \<open>Experiments 4 and 5: a proof for one point, checked off chain and on chain\<close>

text \<open>
  The evaluation point: in \<open>src/index.ts\<close> the first 32 bytes of the blob,
  \<open>hexToBytes(blob).slice(0, 32)\<close>; in the second script an entry of the table,
  \<open>hexToBytes(`0x${rootsOfUnity[index]}`).reverse().slice(0, 32)\<close> with \<open>index = 3\<close>
  (a missing entry is printed as \<open>undefined\<close> by the template).
\<close>

definition zBytes_blob :: "('a, 'r) world \<Rightarrow> hex \<Rightarrow> bytes run" where
  "zBytes_blob W blob =
     bind (util (hexToBytes (viem W) blob)) (\<lambda>bb. ret (slice_list bb 0 32))"

definition zBytes_root :: "('a, 'r) world \<Rightarrow> hex \<Rightarrow> bytes run" where
  "zBytes_root W blob =
     bind (util (hexToBytes (viem W)
             (''0x'' @ (case index (rootsOfUnity W) 3 of None \<Rightarrow> ''undefined'' | Some r \<Rightarrow> r))))
       (\<lambda>rb. ret (slice_list (rev rb) 0 32))"

text \<open>
  Experiment 4 ends by printing \<open>isValid\<close>; the value of the run is that flag.
  \<open>PointProof\<close> is the pair \<open>[proof, y]\<close>.
\<close>

definition experiment4 ::
  "('a, 'r) world \<Rightarrow> (('a, 'r) world \<Rightarrow> hex \<Rightarrow> bytes run) \<Rightarrow> hex \<Rightarrow> hex \<Rightarrow> bool run" where
  "experiment4 W zBytes_of blob commitment =
     bind (zBytes_of W blob) (\<lambda>zBytes.
     bind (util (hexToBytes (viem W) blob)) (\<lambda>bb.
     bind (ext C_computeKzgProof (computeKzgProof (cKzg W) bb zBytes)) (\<lambda>PointProof.
     bind (util (hexToBytes (viem W) commitment)) (\<lambda>cb.
     bind (ext C_verifyKzgProof
            (verifyKzgProof (cKzg W) cb zBytes (snd PointProof) (fst PointProof))) (\<lambda>isValid.
     ret isValid)))))"

text \<open>
  viem's \<open>concat\<close> calls a string method on each element, so an \<open>undefined\<close>
  versioned hash is a TypeError.
\<close>

definition experiment5 ::
  "('a, 'r) world \<Rightarrow> (('a, 'r) world \<Rightarrow> hex \<Rightarrow> bytes run) \<Rightarrow> hex \<Rightarrow> hex option \<Rightarrow> hex
     \<Rightarrow> unit run" where
  "experiment5 W zBytes_of blob versionedHash commitment =
     bind (zBytes_of W blob) (\<lambda>zBytes.
     bind (util (hexToBytes (viem W) blob)) (\<lambda>bb.
     bind (ext C_computeKzgProof (computeKzgProof (cKzg W) bb zBytes)) (\<lambda>PointProof.
     bind (case versionedHash of None \<Rightarrow> throw TypeError | Some vh \<Rightarrow> ret vh) (\<lambda>vh.
     bind (ext Call (call (viem W) POINT_EVALUATION_PRECOMPILE_ADDRESS
            (concat_hex (viem W)
               [vh,
                bytesToHex (viem W) zBytes,
                bytesToHex (viem W) (snd PointProof),
                commitment,
                bytesToHex (viem W) (fst PointProof)]))) (\<lambda>result.
     ret ())))))"

subsection \<open>Experiment 6: the two backends\<close>

definition experiment6_c :: "('a, 'r) world \<Rightarrow> hex \<Rightarrow> hex \<Rightarrow> hex \<Rightarrow> unit run" where
  "experiment6_c W blob commitment proof' =
     bind (util (hexToBytes (viem W) blob)) (\<lambda>bb.
     bind (ext C_blobToKzgCommitment (blobToKzgCommitment (cKzg W) bb)) (\<lambda>commitment'.
     bind (util (hexToBytes (viem W) blob)) (\<lambda>bb'.
     bind (ext C_computeBlobKzgProof (computeBlobKzgProof (cKzg W) bb' commitment')) (\<lambda>p.
     bind (require_equalHex (Some (bytesToHex (viem W) commitment')) (Some commitment)
             ''Commitment mismatch'') (\<lambda>_.
     require_equalHex (Some (bytesToHex (viem W) p)) (Some proof') ''Proof mismatch'')))))"

definition experiment6_wasm :: "wasm_lib \<Rightarrow> hex \<Rightarrow> hex \<Rightarrow> hex \<Rightarrow> unit run" where
  "experiment6_wasm wasmKzg blob commitment proof' =
     bind (ext W_blobToKZGCommitment (blobToKZGCommitment wasmKzg blob)) (\<lambda>commitment'.
     bind (ext W_computeBlobKZGProof (computeBlobKZGProof wasmKzg blob commitment')) (\<lambda>p.
     bind (require_equalHex (Some commitment') (Some commitment) ''Commitment mismatch'') (\<lambda>_.
     require_equalHex (Some p) (Some proof') ''Proof mismatch'')))"

definition experiment6 ::
  "('a, 'r) world \<Rightarrow> wasm_lib \<Rightarrow> hex \<Rightarrow> hex \<Rightarrow> hex \<Rightarrow> unit run" where
  "experiment6 W wasmKzg blob commitment proof' =
     bind (experiment6_c W blob commitment proof') (\<lambda>_.
     experiment6_wasm wasmKzg blob commitment proof')"

subsection \<open>Experiment 7: the batch of cell proofs\<close>

text \<open>
  \<open>Array.from({ length: n }, (_) => hexToBytes(commitment))\<close> calls \<open>hexToBytes\<close>
  once per element, always on the same string: no call for \<open>n = 0\<close>, the same result
  \<open>n\<close> times otherwise.
\<close>

definition dupCommitments :: "('a, 'r) world \<Rightarrow> hex \<Rightarrow> bytes list run" where
  "dupCommitments W commitment =
     (if CELLS_PER_EXT_BLOB (cKzg W) = 0 then ret []
      else bind (util (hexToBytes (viem W) commitment)) (\<lambda>cb.
           ret (replicate (CELLS_PER_EXT_BLOB (cKzg W)) cb)))"

definition experiment7 :: "('a, 'r) world \<Rightarrow> hex \<Rightarrow> hex \<Rightarrow> unit run" where
  "experiment7 W blob commitment =
     bind (util (hexToBytes (viem W) blob)) (\<lambda>bb.
     bind (ext C_computeCellsAndKzgProofs (computeCellsAndKzgProofs (cKzg W) bb)) (\<lambda>cp.
     let indices = indices_from (CELLS_PER_EXT_BLOB (cKzg W)) in
     bind (dupCommitments W commitment) (\<lambda>dups.
     bind (ext C_verifyCellKzgProofBatch
            (verifyCellKzgProofBatch (cKzg W) dups indices (fst cp) (snd cp))) (\<lambda>isValid.
     if \<not> isValid then throw (Error ''Proof verification failed'') else ret ()))))"

subsection \<open>Experiment 8: recovery of the cells\<close>

text \<open>
  The loop \<open>for (let i = 0; i < cKzg.CELLS_PER_EXT_BLOB; i++)\<close> over the indices still
  to check. \<open>bytesToHex\<close> reads the length of its argument, so a missing cell
  (\<open>undefined\<close>) is a TypeError; the recovered cell is converted first.
\<close>

fun compare_cells :: "('a, 'r) world \<Rightarrow> bytes list \<Rightarrow> bytes list \<Rightarrow> nat list \<Rightarrow> unit run" where
  "compare_cells W recoveredCells cells' [] = ret ()"
| "compare_cells W recoveredCells cells' (i # rest) =
     (case index recoveredCells i of
        None \<Rightarrow> throw TypeError
      | Some r \<Rightarrow>
          (case index cells' i of
             None \<Rightarrow> throw TypeError
           | Some c \<Rightarrow>
               bind (require_equalHex (Some (bytesToHex (viem W) r))
                       (Some (bytesToHex (viem W) c)) ''Cell mismatch'') (\<lambda>_.
               compare_cells W recoveredCells cells' rest)))"

definition experiment8 :: "('a, 'r) world \<Rightarrow> hex \<Rightarrow> unit run" where
  "experiment8 W blob =
     bind (util (hexToBytes (viem W) blob)) (\<lambda>_.
     bind (util (hexToBytes (viem W) blob)) (\<lambda>bb.
     bind (ext C_computeCellsAndKzgProofs (computeCellsAndKzgProofs (cKzg W) bb)) (\<lambda>cp.
     let indices = indices_from (CELLS_PER_EXT_BLOB (cKzg W)) in
     bind (ext C_recoverCellsAndKzgProofs
            (recoverCellsAndKzgProofs (cKzg W)
               (slice_list indices 64 128) (slice_list (fst cp) 64 128))) (\<lambda>recovered.
     compare_cells W (fst recovered) (fst cp) (indices_from (CELLS_PER_EXT_BLOB (cKzg W)))))))"

subsection \<open>The function \<open>experimentWithBlob\<close>\<close>

text \<open>
  The clients, the two backends and the blob. The script stops here unless \<open>toBlobs\<close>
  gave exactly one blob.
\<close>

definition only_one_blob :: string where
  "only_one_blob = ''Only one blob is assumed in this example''"

definition start_up :: "('a, 'r) world \<Rightarrow> hex \<Rightarrow> string \<Rightarrow> ('a \<times> wasm_lib \<times> hex list \<times> hex) run" where
  "start_up W privateKey payload =
     bind (ext PrivateKeyToAccount (privateKeyToAccount (viem W) privateKey)) (\<lambda>account.
     bind (ext CreateWalletClient (createWalletClient (viem W) account)) (\<lambda>client.
     bind (ext CreatePublicClient (createPublicClient (viem W))) (\<lambda>publicClient.
     bind (ext C_loadTrustedSetup (loadTrustedSetup (cKzg W) 0 mainnetTrustedSetupPath)) (\<lambda>_.
     bind (ext LoadKZG (loadKZG W)) (\<lambda>wasmKzg.
     bind (ext W_loadTrustedSetup (loadTrustedSetup_wasm wasmKzg 0)) (\<lambda>_.
     bind (util (toBlobs (viem W) (stringToHex (viem W) payload))) (\<lambda>blobs.
     if length blobs \<noteq> 1 then throw (Error only_one_blob)
     else ret (account, wasmKzg, blobs, blobs ! 0))))))))"

text \<open>
  The experiments of \<open>src/index.ts\<close>, in order, on the single blob.
\<close>

definition experiments_index ::
  "('a, 'r) world \<Rightarrow> 'a \<Rightarrow> wasm_lib \<Rightarrow> hex list \<Rightarrow> hex \<Rightarrow> bytes \<Rightarrow> bool \<Rightarrow> unit run" where
  "experiments_index W account wasmKzg blobs blob V sendTransaction' =
     bind (experiment1 W account blobs blob sendTransaction') (\<lambda>(versionedHash, commitment, proof').
     bind (experiment2 W V blob versionedHash) (\<lambda>_.
     bind (experiment3 W V blob versionedHash commitment proof') (\<lambda>_.
     bind (experiment4 W zBytes_blob blob commitment) (\<lambda>_.
     bind (experiment5 W zBytes_blob blob versionedHash commitment) (\<lambda>_.
     experiment6 W wasmKzg blob commitment proof')))))"

text \<open>
  \<open>experimentWithBlob\<close> itself: the start-up, then the experiments of the script
  on the single blob. The two scripts differ in the payload and in the experiments.
\<close>

type_synonym ('a, 'r) experiments =
  "('a, 'r) world \<Rightarrow> 'a \<Rightarrow> wasm_lib \<Rightarrow> hex list \<Rightarrow> hex \<Rightarrow> bytes \<Rightarrow> bool \<Rightarrow> unit run"

definition experimentWithBlob ::
  "('a, 'r) world \<Rightarrow> string \<Rightarrow> ('a, 'r) experiments \<Rightarrow> hex \<Rightarrow> bytes \<Rightarrow> bool \<Rightarrow> unit run" where
  "experimentWithBlob W payload experiments privateKey V sendTransaction' =
     bind (start_up W privateKey payload) (\<lambda>(account, wasmKzg, blobs, blob).
     experiments W account wasmKzg blobs blob V sendTransaction')"


definition experiments_cells ::
  "('a, 'r) world \<Rightarrow> 'a \<Rightarrow> wasm_lib \<Rightarrow> hex list \<Rightarrow> hex \<Rightarrow> bytes \<Rightarrow> bool \<Rightarrow> unit run" where
  "experiments_cells W account wasmKzg blobs blob V sendTransaction' =
     bind (experiment1 W account blobs blob sendTransaction') (\<lambda>(versionedHash, commitment, proof').
     bind (experiment2 W V blob versionedHash) (\<lambda>_.
     bind (experiment3 W V blob versionedHash commitment proof') (\<lambda>_.
     bind (experiment4 W zBytes_root blob commitment) (\<lambda>_.
     bind (experiment5 W zBytes_root blob versionedHash commitment) (\<lambda>_.
     bind (experiment6 W wasmKzg blob commitment proof') (\<lambda>_.
     bind (experiment7 W blob commitment) (\<lambda>_.
     experiment8 W blob)))))))"

subsection \<open>The scripts as run\<close>

text \<open>
  \<open>env\<close> is \<open>process.env.PRIVATE_KEY\<close> after \<open>dotenv.config\<close>: \<open>None\<close> when the
  variable is not set. \<open>!process.env.PRIVATE_KEY\<close> also holds for the empty string.
  Each script then evaluates its constants and calls \<open>experimentWithBlob(true)\<close>:
  \<open>src/index.ts\<close> with the payload \<open>hello world\<close>, the second script with
  \<open>rawBlob\<close>.
\<close>

definition private_key_guard :: "string option \<Rightarrow> hex run" where
  "private_key_guard env =
     (case env of
        None \<Rightarrow> throw (Error ''PRIVATE_KEY is not set'')
      | Some k \<Rightarrow> if k = [] then throw (Error ''PRIVATE_KEY is not set'') else ret k)"

definition script_index :: "('a, 'r) world \<Rightarrow> string option \<Rightarrow> unit run" where
  "script_index W env =
     bind (private_key_guard env) (\<lambda>privateKey.
     bind (util (hexToBytes (viem W) ''0x01'')) (\<lambda>VERSIONED_HASH_VERSION_KZG.
     experimentWithBlob W ''hello world'' experiments_index
       privateKey VERSIONED_HASH_VERSION_KZG True))"


section \<open>The native backend as a library with a state\<close>

text \<open>
  In the world above a library function is a function of its arguments, so a call made
  twice with the same arguments returns the same result twice. c-kzg is a native
  library: what a call returns may depend on what the library holds when the call is
  made, and a call may change it. To ask whether a value computed again can differ from
  the value computed first, the two functions that the scripts call again are given a
  state here: a call takes the state of the library and returns the state it leaves
  behind together with its result.
\<close>

record 's ckzg_native =
  native_blobToKzgCommitment :: "bytes \<Rightarrow> 's \<Rightarrow> (string + bytes) \<times> 's"
  native_computeBlobKzgProof :: "bytes \<Rightarrow> bytes \<Rightarrow> 's \<Rightarrow> (string + bytes) \<times> 's"

text \<open>
  A piece of script over such a library: from the state of the library to its outcome
  and the state left behind. \<open>st_bind\<close> is sequencing, \<open>st_call\<close> a call to the
  library, \<open>st_script\<close> a piece of script that does not call the native backend (the
  calls it records are left out here).
\<close>

type_synonym ('s, 'a) st_run = "'s \<Rightarrow> (error + 'a) \<times> 's"

definition st_ret :: "'a \<Rightarrow> ('s, 'a) st_run" where
  "st_ret v s = (Inr v, s)"

definition st_bind :: "('s, 'a) st_run \<Rightarrow> ('a \<Rightarrow> ('s, 'b) st_run) \<Rightarrow> ('s, 'b) st_run" where
  "st_bind m f s = (case m s of (Inl e, s') \<Rightarrow> (Inl e, s') | (Inr v, s') \<Rightarrow> f v s')"

definition st_call :: "('s \<Rightarrow> (string + 'a) \<times> 's) \<Rightarrow> ('s, 'a) st_run" where
  "st_call c s = (case c s of (r, s') \<Rightarrow> (lift_result r, s'))"

definition st_script :: "'a run \<Rightarrow> ('s, 'a) st_run" where
  "st_script m s = (outcome m, s)"

text \<open>
  The first two statements of experiment 1, which assign \<open>commitment\<close> and \<open>proof\<close>;
  nothing after them in the experiment assigns these variables again.
\<close>

definition experiment1_kzg ::
  "('a, 'r) world \<Rightarrow> 's ckzg_native \<Rightarrow> hex \<Rightarrow> ('s, hex \<times> hex) st_run" where
  "experiment1_kzg W K blob =
     st_bind (st_script (util (hexToBytes (viem W) blob))) (\<lambda>bb.
     st_bind (st_call (native_blobToKzgCommitment K bb)) (\<lambda>c.
     let commitment = bytesToHex (viem W) c in
     st_bind (st_script (util (hexToBytes (viem W) blob))) (\<lambda>bb'.
     st_bind (st_script (util (hexToBytes (viem W) commitment))) (\<lambda>cb.
     st_bind (st_call (native_computeBlobKzgProof K bb' cb)) (\<lambda>p.
     let proof' = bytesToHex (viem W) p in
     st_ret (commitment, proof'))))))"

text \<open>
  \<open>cKzg.blobToKzgCommitment(hexToBytes(blob))\<close>, the statement with which experiment 2,
  the first half of experiment 3 and the native half of experiment 6 begin.
\<close>

definition recomputed_commitment ::
  "('a, 'r) world \<Rightarrow> 's ckzg_native \<Rightarrow> hex \<Rightarrow> ('s, bytes) st_run" where
  "recomputed_commitment W K blob =
     st_bind (st_script (util (hexToBytes (viem W) blob))) (\<lambda>bb.
     st_call (native_blobToKzgCommitment K bb))"

text \<open>The native half of experiment 6.\<close>

definition experiment6_c_native ::
  "('a, 'r) world \<Rightarrow> 's ckzg_native \<Rightarrow> hex \<Rightarrow> hex \<Rightarrow> hex \<Rightarrow> ('s, unit) st_run" where
  "experiment6_c_native W K blob commitment proof' =
     st_bind (recomputed_commitment W K blob) (\<lambda>commitment'.
     st_bind (st_script (util (hexToBytes (viem W) blob))) (\<lambda>bb'.
     st_bind (st_call (native_computeBlobKzgProof K bb' commitment')) (\<lambda>p.
     st_bind (st_script (require_equalHex (Some (bytesToHex (viem W) commitment'))
                (Some commitment) ''Commitment mismatch'')) (\<lambda>_.
     st_script (require_equalHex (Some (bytesToHex (viem W) p)) (Some proof')
       ''Proof mismatch'')))))"

text \<open>
  A library of the world above seen as a library with a state: its calls neither read
  nor change the state.
\<close>

definition stateless :: "ckzg_lib \<Rightarrow> 's ckzg_native" where
  "stateless C =
     \<lparr> native_blobToKzgCommitment = (\<lambda>bb s. (blobToKzgCommitment C bb, s)),
       native_computeBlobKzgProof = (\<lambda>bb c s. (computeBlobKzgProof C bb c, s)) \<rparr>"

section \<open>The two small viem scripts\<close>

text \<open>
  Both start with the same check of \<open>PRIVATE_KEY\<close> and then call one of their
  functions: \<open>KZGProofVerification()\<close> in the first, \<open>signTransaction()\<close> in the
  second. The functions they define and never call are left out.
\<close>







section \<open>The ethers script\<close>

subsection \<open>ethers\<close>

record fee_data =
  fee_maxPriorityFeePerGas :: "int option"
  fee_maxFeePerGas :: "int option"

record access_entry =
  address :: string
  storageKeys :: "string list"

record blob_entry =
  blob_data :: hex
  blob_commitment :: hex
  blob_proof :: hex

text \<open>
  The fields of ethers' \<open>Transaction\<close> that the script assigns. \<open>None\<close> is a field
  that is \<open>null\<close>: one the script has not assigned, or assigned \<open>null\<close>.
\<close>

record ethers_tx =
  tx_to :: "string option"
  tx_value :: "int option"
  tx_gasLimit :: "int option"
  tx_maxPriorityFeePerGas :: "int option"
  tx_maxFeePerGas :: "int option"
  tx_data :: "hex option"
  tx_nonce :: "nat option"
  tx_type :: "nat option"
  tx_chainId :: "int option"
  tx_accessList :: "access_entry list option"
  tx_maxFeePerBlobGas :: "int option"
  tx_blobWrapperVersion :: "nat option"
  tx_blobs :: "blob_entry list option"

definition new_Transaction :: ethers_tx where
  "new_Transaction =
     \<lparr> tx_to = None, tx_value = None, tx_gasLimit = None, tx_maxPriorityFeePerGas = None,
       tx_maxFeePerGas = None, tx_data = None, tx_nonce = None, tx_type = None,
       tx_chainId = None, tx_accessList = None, tx_maxFeePerBlobGas = None,
       tx_blobWrapperVersion = None, tx_blobs = None \<rparr>"

record ('p, 'w) ethers_lib =
  hexlify :: "bytes \<Rightarrow> hex"
  toUtf8Bytes :: "string \<Rightarrow> bytes"
  concat_data :: "hex list \<Rightarrow> string + hex"
  parseEther :: "string \<Rightarrow> string + int"
  new_JsonRpcProvider :: "string \<Rightarrow> string + 'p"
  new_Wallet :: "string \<Rightarrow> 'p \<Rightarrow> string + 'w"
  getFeeData :: "'p \<Rightarrow> string + fee_data"
  getAddress :: "'w \<Rightarrow> string + string"
  getTransactionCount :: "'p \<Rightarrow> string \<Rightarrow> string + nat"
  wallet_signTransaction :: "'w \<Rightarrow> ethers_tx \<Rightarrow> string + string"
  provider_send :: "'p \<Rightarrow> string \<Rightarrow> string list \<Rightarrow> string + string"

record ('p, 'w) ethers_world =
  ethers :: "('p, 'w) ethers_lib"
  ethers_loadKZG :: "string + wasm_lib"

subsection \<open>The blob\<close>

text \<open>
  \<^verbatim>\<open>const blob = new Uint8Array(32 * 4_096); blob.set(data, 0);\<close>
\<close>

definition BYTES_PER_FIELD_ELEMENT :: nat where
  "BYTES_PER_FIELD_ELEMENT = 32"

definition FIELD_ELEMENTS_PER_BLOB :: nat where
  "FIELD_ELEMENTS_PER_BLOB = 4096"

definition make_blob :: "bytes \<Rightarrow> error + bytes" where
  "make_blob data =
     set_bytes (new_Uint8Array (BYTES_PER_FIELD_ELEMENT * FIELD_ELEMENTS_PER_BLOB)) data 0"

subsection \<open>The function \<open>main\<close>\<close>

text \<open>
  \<open>eip\<close> is \<open>process.argv[2]\<close>, \<open>None\<close> when the script is run without an argument.
  The value of the run is the transaction as it is signed and sent.
\<close>

definition sidecar_proof_for :: "('p, 'w) ethers_world \<Rightarrow> wasm_lib \<Rightarrow> string option \<Rightarrow> hex \<Rightarrow> hex \<Rightarrow> hex run" where
  "sidecar_proof_for EW kzg eip blobHex commitment =
     (if eip = Some ''4844'' then
        ext W_computeBlobKZGProof (computeBlobKZGProof kzg blobHex commitment)
      else
        bind (ext W_computeCellsAndKZGProofs (computeCellsAndKZGProofs kzg blobHex)) (\<lambda>cp.
        util (concat_data (ethers EW) (proofs cp))))"

definition main :: "('p, 'w) ethers_world \<Rightarrow> string \<Rightarrow> string option \<Rightarrow> ethers_tx run" where
  "main EW privateKey eip =
     bind (ext LoadKZG (ethers_loadKZG EW)) (\<lambda>kzg.
     bind (ext NewJsonRpcProvider
            (new_JsonRpcProvider (ethers EW) ''https://11155111.rpc.thirdweb.com'')) (\<lambda>provider.
     bind (ext NewWallet (new_Wallet (ethers EW) privateKey provider)) (\<lambda>wallet.
     bind (ext GetFeeData (getFeeData (ethers EW) provider)) (\<lambda>feeData.
     let tx = new_Transaction;
         tx = tx\<lparr>tx_to := Some ''0x9F3f11d72d96910df008Cfe3aBA40F361D2EED03''\<rparr> in
     bind (util (parseEther (ethers EW) ''0'')) (\<lambda>v.
     let tx = tx\<lparr>tx_value := Some v\<rparr>;
         tx = tx\<lparr>tx_gasLimit := Some 50000\<rparr>;
         tx = tx\<lparr>tx_maxPriorityFeePerGas := fee_maxPriorityFeePerGas feeData\<rparr>;
         tx = tx\<lparr>tx_maxFeePerGas := fee_maxFeePerGas feeData\<rparr>;
         tx = tx\<lparr>tx_data := Some ''0x5468697320697320612074657374207472616e73616374696f6e21''\<rparr> in
     bind (ext GetAddress (getAddress (ethers EW) wallet)) (\<lambda>addr.
     bind (ext GetTransactionCount (getTransactionCount (ethers EW) provider addr)) (\<lambda>n.
     let tx = tx\<lparr>tx_nonce := Some n\<rparr>;
         tx = tx\<lparr>tx_type := Some 3\<rparr>;
         tx = tx\<lparr>tx_chainId := Some 11155111\<rparr>;
         tx = tx\<lparr>tx_accessList := Some
                [\<lparr> address = ''0x6B175474E89094C44Da98b954EedeAC495271d0F'',
                   storageKeys =
                     [''0x0000000000000000000000000000000000000000000000000000000000000002'',
                      ''0x0000000000000000000000000000000000000000000000000000000000000003''] \<rparr>]\<rparr>;
         tx = tx\<lparr>tx_maxFeePerBlobGas := Some 400000000000\<rparr>;
         tx = (if eip = Some ''7594'' then tx\<lparr>tx_blobWrapperVersion := Some 1\<rparr> else tx);
         data = toUtf8Bytes (ethers EW) ''Long live the BLOBs!'' in
     bind (lift (make_blob data)) (\<lambda>blob.
     let blobHex = hexlify (ethers EW) blob in
     bind (ext W_blobToKZGCommitment (blobToKZGCommitment kzg blobHex)) (\<lambda>commitment.
     bind (sidecar_proof_for EW kzg eip blobHex commitment) (\<lambda>proof'.
     let tx = tx\<lparr>tx_blobs := Some [\<lparr> blob_data = blobHex,
                                       blob_commitment = commitment,
                                       blob_proof = proof' \<rparr>]\<rparr> in
     bind (ext WalletSignTransaction (wallet_signTransaction (ethers EW) wallet tx)) (\<lambda>rawTx.
     bind (ext (ProviderSend ''eth_sendRawTransaction'')
            (provider_send (ethers EW) provider ''eth_sendRawTransaction'' [rawTx])) (\<lambda>res.
     ret tx))))))))))))"



section \<open>A reference world\<close>

text \<open>
  Concrete libraries on which the statements below are evaluated. The byte/hex codec is
  the usual one (\<open>0x\<close>, then two lowercase digits for each byte; decoding accepts both
  cases and pads an odd number of digits with a leading zero). The KZG functions, the
  hash and the node are small stand-ins that agree with each other the way the real ones
  do: both backends compute the same commitment and proof, and the node answers with the
  versioned hash of the commitment.
\<close>

definition hexDigitOf :: "nat \<Rightarrow> char" where
  "hexDigitOf n = ''0123456789abcdef'' ! n"

definition byteToHex :: "byte \<Rightarrow> string" where
  "byteToHex b = [hexDigitOf (unat b div 16), hexDigitOf (unat b mod 16)]"

definition ref_bytesToHex :: "bytes \<Rightarrow> hex" where
  "ref_bytesToHex bs = ''0x'' @ concat (map byteToHex bs)"

fun parse_pairs :: "string \<Rightarrow> string + bytes" where
  "parse_pairs [] = Inr []"
| "parse_pairs [c] = Inl ''invalid hex value''"
| "parse_pairs (c # d # rest) =
     (case (hexDigitValue c, hexDigitValue d) of
        (Some x, Some y) \<Rightarrow>
          (case parse_pairs rest of
             Inl m \<Rightarrow> Inl m
           | Inr bs \<Rightarrow> Inr (of_nat (16 * x + y) # bs))
      | _ \<Rightarrow> Inl ''invalid hex value'')"

definition ref_hexToBytes :: "hex \<Rightarrow> string + bytes" where
  "ref_hexToBytes h =
     (let digits = drop 2 h
      in parse_pairs (if odd (length digits) then CHR ''0'' # digits else digits))"

definition ref_cells :: "bytes list" where
  "ref_cells = map (\<lambda>i. [of_nat i, 7]) [0..<128]"

definition ref_cell_proofs :: "bytes list" where
  "ref_cell_proofs = map (\<lambda>i. [of_nat i]) [0..<128]"

definition ref_viem :: "(unit, unit) viem_lib" where
  "ref_viem =
     \<lparr> hexToBytes = ref_hexToBytes,
       bytesToHex = ref_bytesToHex,
       sha256 = (\<lambda>_. Inr ''0x5a17c3''),
       stringToHex = (\<lambda>s. ref_bytesToHex (map of_char s)),
       toBlobs = (\<lambda>h. Inr [h @ ''80'']),
       concat_hex = (\<lambda>hs. ''0x'' @ concat (map (drop 2) hs)),
       parseGwei = (\<lambda>_. Inr 30000000000),
       parseTransaction = (\<lambda>_. Inr ()),
       privateKeyToAccount = (\<lambda>_. Inr ()),
       createWalletClient = (\<lambda>_. Inr ()),
       createPublicClient = Inr (),
       signTransaction = (\<lambda>_ _. Inr ''0x03f9''),
       prepareTransactionRequest = (\<lambda>_. Inr \<lparr> blobVersionedHashes = Some [''0x0117C3''] \<rparr>),
       sendRawTransaction = (\<lambda>_. Inr ''0x7e57''),
       sendTransaction = (\<lambda>_. Inr ''0x7e57''),
       getTransaction = (\<lambda>_. Inr (Some \<lparr> tx_blobVersionedHashes = Some [''0x0117c3''] \<rparr>)),
       call = (\<lambda>_ _. Inr ()) \<rparr>"

definition ref_cKzg :: ckzg_lib where
  "ref_cKzg =
     \<lparr> loadTrustedSetup = (\<lambda>_ _. Inr ()),
       blobToKzgCommitment = (\<lambda>blob. Inr (take 2 blob)),
       computeBlobKzgProof = (\<lambda>blob commitment. Inr (rev commitment)),
       verifyBlobKzgProof = (\<lambda>blob commitment p. Inr (p = rev commitment)),
       computeKzgProof = (\<lambda>blob z. Inr ([9], take 1 z)),
       verifyKzgProof = (\<lambda>commitment z y p. Inr (p = [9])),
       computeCellsAndKzgProofs = (\<lambda>blob. Inr (ref_cells, ref_cell_proofs)),
       verifyCellKzgProofBatch = (\<lambda>cs is cells' ps. Inr (cells' = ref_cells)),
       recoverCellsAndKzgProofs = (\<lambda>is cells'. Inr (ref_cells, ref_cell_proofs)),
       CELLS_PER_EXT_BLOB = 128 \<rparr>"

definition ref_wasmKzg :: wasm_lib where
  "ref_wasmKzg =
     \<lparr> loadTrustedSetup_wasm = (\<lambda>_. Inr ()),
       blobToKZGCommitment = (\<lambda>blob. Inr (''0x'' @ take 4 (drop 2 blob))),
       computeBlobKZGProof = (\<lambda>blob commitment. Inr (''0x'' @ drop 4 commitment @ take 2 (drop 2 commitment))),
       verifyBlobKZGProof = (\<lambda>blob commitment p. Inr True),
       computeCellsAndKZGProofs = (\<lambda>blob. Inr \<lparr> cells = [''0xc0'', ''0xc1''], proofs = [''0xaa'', ''0xbb''] \<rparr>),
       blobToKZGCommitment_undefined = Inl ''blob is undefined'',
       computeBlobKZGProof_undefined = (\<lambda>commitment. Inl ''blob is undefined''),
       verifyBlobKZGProof_undefined = (\<lambda>commitment p. Inl ''blob is undefined'') \<rparr>"

definition ref_world :: "(unit, unit) world" where
  "ref_world =
     \<lparr> viem = ref_viem,
       cKzg = ref_cKzg,
       loadKZG = Inr ref_wasmKzg,
       rootsOfUnity = [''01'', ''02'', ''03'', ''0a0b0c''] \<rparr>"

definition ref_ethers :: "(unit, unit) ethers_lib" where
  "ref_ethers =
     \<lparr> hexlify = ref_bytesToHex,
       toUtf8Bytes = map of_char,
       concat_data = (\<lambda>hs. Inr (''0x'' @ concat (map (drop 2) hs))),
       parseEther = (\<lambda>_. Inr 0),
       new_JsonRpcProvider = (\<lambda>_. Inr ()),
       new_Wallet = (\<lambda>key _. if key = [] then Inl ''invalid private key'' else Inr ()),
       getFeeData = (\<lambda>_. Inr \<lparr> fee_maxPriorityFeePerGas = Some 1, fee_maxFeePerGas = Some 2 \<rparr>),
       getAddress = (\<lambda>_. Inr ''0x00''),
       getTransactionCount = (\<lambda>_ _. Inr 5),
       wallet_signTransaction = (\<lambda>_ _. Inr ''0x03f9''),
       provider_send = (\<lambda>_ _ _. Inr ''0x7e57'') \<rparr>"

definition ref_ethers_world :: "(unit, unit) ethers_world" where
  "ref_ethers_world = \<lparr> ethers = ref_ethers, ethers_loadKZG = Inr ref_wasmKzg \<rparr>"

subsection \<open>Variants of the reference world\<close>

text \<open>The blob that \<open>toBlobs\<close> of the reference world makes of \<open>hello world\<close>.\<close>

definition ref_blob :: hex where
  "ref_blob = ''0x68656c6c6f20776f726c6480''"

text \<open>A \<open>toBlobs\<close> that returns no blob at all.\<close>

definition ref_world_no_blob :: "(unit, unit) world" where
  "ref_world_no_blob = ref_world \<lparr> viem := ref_viem \<lparr> toBlobs := (\<lambda>_. Inr []) \<rparr> \<rparr>"








section \<open>Notions used in the statements\<close>

text \<open>A run that does not end with the exception \<open>e\<close>.\<close>

definition avoids :: "error \<Rightarrow> 'a run \<Rightarrow> bool" where
  "avoids e m \<longleftrightarrow> outcome m \<noteq> Inl e"

text \<open>
  A native backend whose results do not depend on its state: called with the same
  arguments, a function returns the same result in every state.
\<close>

definition deterministic :: "'s ckzg_native \<Rightarrow> bool" where
  "deterministic K \<longleftrightarrow>
     (\<forall>bb s s'. fst (native_blobToKzgCommitment K bb s) = fst (native_blobToKzgCommitment K bb s'))
   \<and> (\<forall>bb c s s'. fst (native_computeBlobKzgProof K bb c s)
                    = fst (native_computeBlobKzgProof K bb c s'))"


text \<open>
  A blob that carries a payload: 32 times 4096 bytes, the payload first, zeros after it.
\<close>

definition zero_padded :: "bytes \<Rightarrow> bytes \<Rightarrow> bool" where
  "zero_padded data blob \<longleftrightarrow>
     length blob = 32 * 4096
     \<and> take (length data) blob = data
     \<and> drop (length data) blob = replicate (32 * 4096 - length data) 0"

text \<open>The calls of \<open>start_up\<close>, in order.\<close>

definition start_up_calls :: "event list" where
  "start_up_calls =
     [PrivateKeyToAccount, CreateWalletClient, CreatePublicClient,
      C_loadTrustedSetup, LoadKZG, W_loadTrustedSetup]"

text \<open>
  A call that computes on a blob with a KZG backend (a commitment, a proof, a
  verification, cells) or that reaches the node.
\<close>

definition blob_computation_or_network :: "event \<Rightarrow> bool" where
  "blob_computation_or_network e \<longleftrightarrow>
     is_network_call e \<or> (is_kzg_call e \<and> \<not> is_kzg_setup e)"

section \<open>Properties\<close>

subsection \<open>Runs\<close>

lemma bind_ret [simp]: "bind (ret v) f = f v"
  by (simp add: bind_def ret_def)

lemma bind_throw [simp]: "bind (throw e) f = throw e"
  by (simp add: bind_def throw_def)

lemma outcome_bind:
  "outcome (bind m f) = (case outcome m of Inl e \<Rightarrow> Inl e | Inr v \<Rightarrow> outcome (f v))"
  by (simp add: bind_def outcome_def split: sum.splits prod.splits)

lemma trace_bind:
  "trace (bind m f) = (case outcome m of Inl e \<Rightarrow> trace m | Inr v \<Rightarrow> trace m @ trace (f v))"
  by (simp add: bind_def outcome_def trace_def split: sum.splits prod.splits)

lemma outcome_ret [simp]: "outcome (ret v) = Inr v"
  by (simp add: outcome_def ret_def)

lemma outcome_throw [simp]: "outcome (throw e) = Inl e"
  by (simp add: outcome_def throw_def)

lemma trace_ret [simp]: "trace (ret v) = []"
  by (simp add: trace_def ret_def)

lemma trace_throw [simp]: "trace (throw e) = []"
  by (simp add: trace_def throw_def)

lemma outcome_ext [simp]: "outcome (ext ev r) = lift_result r"
  by (simp add: outcome_def ext_def)

lemma trace_ext [simp]: "trace (ext ev r) = [ev]"
  by (simp add: trace_def ext_def)

lemma outcome_util [simp]: "outcome (util r) = lift_result r"
  by (simp add: outcome_def util_def)

lemma trace_util [simp]: "trace (util r) = []"
  by (simp add: trace_def util_def)

lemma outcome_lift [simp]: "outcome (lift r) = r"
  by (simp add: outcome_def lift_def)

lemma trace_lift [simp]: "trace (lift r) = []"
  by (simp add: trace_def lift_def)

lemma lift_result_Inr [simp]: "lift_result (Inr v) = Inr v"
  by (simp add: lift_result_def)

lemma lift_result_Inl [simp]: "lift_result (Inl m) = Inl (External m)"
  by (simp add: lift_result_def)

subsection \<open>Outcomes of the building blocks\<close>

lemma lift_result_eq_Inr [simp]: "lift_result r = Inr v \<longleftrightarrow> r = Inr v"
  by (cases r) (simp_all add: lift_result_def)

lemma outcome_bind_Inr:
  "outcome (bind m f) = Inr y \<longleftrightarrow> (\<exists>v. outcome m = Inr v \<and> outcome (f v) = Inr y)"
  by (simp add: outcome_bind split: sum.splits)


lemma outcome_require_equalHex:
  "outcome (require_equalHex a b msg) =
     (case a of
        None \<Rightarrow> Inl TypeError
      | Some x \<Rightarrow>
          (case b of
             None \<Rightarrow> Inl TypeError
           | Some y \<Rightarrow> if toLowerCase x = toLowerCase y then Inr () else Inl (Error msg)))"
  by (simp add: require_equalHex_def equalHex_def split: option.splits)





subsection \<open>Experiment 1\<close>


subsection \<open>Experiments 2, 3, 4, 6, 7 and 8\<close>












subsection \<open>The native backend with a state\<close>


lemma st_script_eq_Inr [simp]:
  "st_script m s = (Inr v, s') \<longleftrightarrow> outcome m = Inr v \<and> s' = s"
  by (auto simp: st_script_def)

lemma st_call_eq_Inr [simp]:
  "st_call c s = (Inr v, s') \<longleftrightarrow> c s = (Inr v, s')"
  by (auto simp: st_call_def split: prod.splits)



text \<open>
  With a library that has no state, the blocks above are the blocks of the experiment
  scripts.
\<close>

lemma experiment6_c_native_stateless:
  "fst (experiment6_c_native W (stateless (cKzg W)) blob commitment proof' s)
     = outcome (experiment6_c W blob commitment proof')"
  by (cases "hexToBytes (viem W) blob")
     (auto simp: experiment6_c_native_def recomputed_commitment_def experiment6_c_def
        stateless_def st_call_def st_bind_def st_script_def outcome_bind
        split: sum.splits)

lemma deterministic_stateless: "deterministic (stateless C)"
  by (simp add: deterministic_def stateless_def)

lemma experiment1_kzg_stateless:
  assumes "outcome (experiment1 W account blobs blob send) = Inr (versionedHash, commitment, proof')"
  shows "experiment1_kzg W (stateless (cKzg W)) blob s = (Inr (commitment, proof'), s)"
  using assms
  by (auto simp: experiment1_def experiment1_kzg_def stateless_def st_ret_def
      st_call_def st_bind_def st_script_def Let_def outcome_bind_Inr)

subsection \<open>Exceptions a run cannot end with\<close>

lemma avoids_bind:
  "avoids e m \<Longrightarrow> (\<And>v. avoids e (f v)) \<Longrightarrow> avoids e (bind m f)"
  by (auto simp: avoids_def outcome_bind split: sum.splits)

lemma avoids_if: "avoids e a \<Longrightarrow> avoids e b \<Longrightarrow> avoids e (if c then a else b)"
  by simp

lemma avoids_case_option:
  "avoids e a \<Longrightarrow> (\<And>x. avoids e (f x)) \<Longrightarrow> avoids e (case v of None \<Rightarrow> a | Some x \<Rightarrow> f x)"
  by (simp split: option.splits)

lemma avoids_case_prod: "(\<And>a b. avoids e (f a b)) \<Longrightarrow> avoids e (case p of (a, b) \<Rightarrow> f a b)"
  by (simp split: prod.splits)

lemma avoids_ext: "avoids (Error msg) (ext ev r)"
  by (cases r) (simp_all add: avoids_def)

lemma avoids_util: "avoids (Error msg) (util r)"
  by (cases r) (simp_all add: avoids_def)

lemma avoids_ret: "avoids e (ret v)"
  by (simp add: avoids_def)

lemma avoids_TypeError: "avoids (Error msg) (throw TypeError)"
  by (simp add: avoids_def)

lemma avoids_throw: "msg' \<noteq> msg \<Longrightarrow> avoids (Error msg) (throw (Error msg'))"
  by (simp add: avoids_def)

lemma avoids_timeout: "avoids e (timeout ms)"
  by (simp add: avoids_def timeout_def outcome_def)

lemma avoids_first_versioned_hash: "avoids (Error msg) (first_versioned_hash hs)"
  by (simp add: avoids_def first_versioned_hash_def split: option.splits)

lemma avoids_require_equalHex:
  "msg' \<noteq> msg \<Longrightarrow> avoids (Error msg) (require_equalHex a b msg')"
  by (simp add: avoids_def outcome_require_equalHex split: option.splits)

lemmas avoids_rules =
  avoids_bind avoids_if avoids_case_option avoids_case_prod avoids_ext avoids_util avoids_ret
  avoids_TypeError avoids_throw avoids_timeout avoids_first_versioned_hash
  avoids_require_equalHex

lemma avoids_experiment1:
  "avoids (Error only_one_blob) (experiment1 W account blobs blob send)"
  unfolding experiment1_def send_and_compare_def Let_def only_one_blob_def
  by (intro avoids_rules) simp_all

lemma avoids_experiment2:
  "avoids (Error only_one_blob) (experiment2 W V blob vh)"
  unfolding experiment2_def manual_versioned_hash_def only_one_blob_def
  by (intro avoids_rules) simp_all

lemma avoids_experiment3:
  "avoids (Error only_one_blob) (experiment3 W V blob vh commitment proof')"
  unfolding experiment3_def experiment3_without_proof_def experiment3_with_proof_def
    manual_versioned_hash_def only_one_blob_def
  by (intro avoids_rules) simp_all

lemma avoids_zBytes_blob: "avoids (Error msg) (zBytes_blob W blob)"
  unfolding zBytes_blob_def by (intro avoids_rules)

lemma avoids_zBytes_root: "avoids (Error msg) (zBytes_root W blob)"
  unfolding zBytes_root_def by (intro avoids_rules)

lemma avoids_experiment4:
  assumes "\<And>W blob. avoids (Error only_one_blob) (z W blob)"
  shows "avoids (Error only_one_blob) (experiment4 W z blob commitment)"
  unfolding experiment4_def by (intro avoids_rules assms)

lemma avoids_experiment5:
  assumes "\<And>W blob. avoids (Error only_one_blob) (z W blob)"
  shows "avoids (Error only_one_blob) (experiment5 W z blob vh commitment)"
  unfolding experiment5_def by (intro avoids_rules assms)

lemma avoids_experiment6:
  "avoids (Error only_one_blob) (experiment6 W wasmKzg blob commitment proof')"
  unfolding experiment6_def experiment6_c_def experiment6_wasm_def only_one_blob_def
  by (intro avoids_rules) simp_all

lemma avoids_experiment7:
  "avoids (Error only_one_blob) (experiment7 W blob commitment)"
  unfolding experiment7_def dupCommitments_def Let_def only_one_blob_def
  by (intro avoids_rules) simp_all

lemma avoids_compare_cells:
  "avoids (Error only_one_blob) (compare_cells W rc cs is)"
proof (induction "is")
  case Nil
  show ?case by (simp add: avoids_ret)
next
  case (Cons i rest)
  show ?case
    unfolding compare_cells.simps
    by (intro avoids_rules Cons.IH) (simp add: only_one_blob_def)
qed

lemma avoids_experiment8:
  "avoids (Error only_one_blob) (experiment8 W blob)"
  unfolding experiment8_def Let_def
  by (intro avoids_rules avoids_compare_cells)

lemma avoids_experiments_index:
  "avoids (Error only_one_blob) (experiments_index W account wasmKzg blobs blob V send)"
  unfolding experiments_index_def
  by (intro avoids_bind avoids_case_prod avoids_experiment1 avoids_experiment2 avoids_experiment3
      avoids_experiment4 avoids_experiment5 avoids_experiment6 avoids_zBytes_blob)

lemma avoids_experiments_cells:
  "avoids (Error only_one_blob) (experiments_cells W account wasmKzg blobs blob V send)"
  unfolding experiments_cells_def
  by (intro avoids_bind avoids_case_prod avoids_experiment1 avoids_experiment2 avoids_experiment3
      avoids_experiment4 avoids_experiment5 avoids_experiment6 avoids_experiment7
      avoids_experiment8 avoids_zBytes_root)

subsection \<open>The start-up\<close>

lemma start_up_run:
  assumes "privateKeyToAccount (viem W) key = Inr account"
    and "createWalletClient (viem W) account = Inr u1"
    and "createPublicClient (viem W) = Inr u2"
    and "loadTrustedSetup (cKzg W) 0 mainnetTrustedSetupPath = Inr u3"
    and "loadKZG W = Inr wasmKzg"
    and "loadTrustedSetup_wasm wasmKzg 0 = Inr u4"
    and "toBlobs (viem W) (stringToHex (viem W) payload) = Inr blobs"
  shows "start_up W key payload =
           (start_up_calls,
            if length blobs \<noteq> 1 then Inl (Error only_one_blob)
            else Inr (account, wasmKzg, blobs, blobs ! 0))"
  using assms
  by (simp add: start_up_def bind_def ext_def util_def ret_def throw_def start_up_calls_def)


subsection \<open>The ethers script\<close>

lemma make_blob_fits:
  assumes "length data \<le> 32 * 4096"
  shows "make_blob data = Inr (data @ replicate (32 * 4096 - length data) 0)"
  using assms
  by (simp add: make_blob_def set_bytes_def new_Uint8Array_def BYTES_PER_FIELD_ELEMENT_def
      FIELD_ELEMENTS_PER_BLOB_def)

lemma make_blob_too_long:
  assumes "length data > 32 * 4096"
  shows "make_blob data = Inl RangeError"
  using assms
  by (simp add: make_blob_def set_bytes_def new_Uint8Array_def BYTES_PER_FIELD_ELEMENT_def
      FIELD_ELEMENTS_PER_BLOB_def)

lemma make_blob_Inr:
  assumes "make_blob data = Inr blob"
  shows "length data \<le> 32 * 4096 \<and> blob = data @ replicate (32 * 4096 - length data) 0"
proof (cases "length data \<le> 32 * 4096")
  case True
  with assms show ?thesis by (simp add: make_blob_fits)
next
  case False
  with assms show ?thesis by (simp add: make_blob_too_long)
qed

text \<open>What a run of \<open>main\<close> that reaches its end has built.\<close>

lemma main_Inr:
  assumes "outcome (main EW key eip) = Inr tx"
  shows "\<exists>kzg blob commitment proof'.
           ethers_loadKZG EW = Inr kzg
         \<and> make_blob (toUtf8Bytes (ethers EW) ''Long live the BLOBs!'') = Inr blob
         \<and> blobToKZGCommitment kzg (hexlify (ethers EW) blob) = Inr commitment
         \<and> outcome (sidecar_proof_for EW kzg eip (hexlify (ethers EW) blob) commitment) = Inr proof'
         \<and> tx_blobs tx = Some [\<lparr> blob_data = hexlify (ethers EW) blob,
                                  blob_commitment = commitment, blob_proof = proof' \<rparr>]
         \<and> tx_blobWrapperVersion tx = (if eip = Some ''7594'' then Some 1 else None)"
  using assms
  by (auto simp: main_def Let_def outcome_bind_Inr new_Transaction_def)

text \<open>\<open>main\<close> reaches its end when every library call returns.\<close>

lemma main_returns:
  assumes "ethers_loadKZG EW = Inr kzg"
    and "new_JsonRpcProvider (ethers EW) ''https://11155111.rpc.thirdweb.com'' = Inr provider"
    and "new_Wallet (ethers EW) key provider = Inr wallet"
    and "getFeeData (ethers EW) provider = Inr feeData"
    and "parseEther (ethers EW) ''0'' = Inr v"
    and "getAddress (ethers EW) wallet = Inr addr"
    and "getTransactionCount (ethers EW) provider addr = Inr n"
    and "make_blob (toUtf8Bytes (ethers EW) ''Long live the BLOBs!'') = Inr blob"
    and "blobToKZGCommitment kzg (hexlify (ethers EW) blob) = Inr commitment"
    and "outcome (sidecar_proof_for EW kzg eip (hexlify (ethers EW) blob) commitment) = Inr proof'"
    and "\<forall>t. \<exists>raw. wallet_signTransaction (ethers EW) wallet t = Inr raw"
    and "\<forall>raw. \<exists>res. provider_send (ethers EW) provider ''eth_sendRawTransaction'' [raw] = Inr res"
  shows "\<exists>tx. outcome (main EW key eip) = Inr tx"
  using assms
  by (simp add: main_def Let_def outcome_bind_Inr)






subsection \<open>The codec of the reference world\<close>












subsection \<open>The ethers script in the reference world\<close>

lemma ref_main_returns: "\<exists>tx. outcome (main ref_ethers_world ''0xkey'' eip) = Inr tx"
proof -
  let ?data = "toUtf8Bytes (ethers ref_ethers_world) ''Long live the BLOBs!''"
  have len: "length ?data \<le> 32 * 4096"
    by (simp add: ref_ethers_world_def ref_ethers_def)
  obtain blob where blob: "make_blob ?data = Inr blob"
    using make_blob_fits [OF len] by blast
  let ?hex = "hexlify (ethers ref_ethers_world) blob"
  obtain commitment where c: "blobToKZGCommitment ref_wasmKzg ?hex = Inr commitment"
    by (simp add: ref_wasmKzg_def)
  obtain p where p: "outcome (sidecar_proof_for ref_ethers_world ref_wasmKzg eip ?hex commitment) = Inr p"
    by (cases "eip = Some ''4844''")
       (simp_all add: sidecar_proof_for_def outcome_bind ref_wasmKzg_def ref_ethers_world_def
          ref_ethers_def)
  show ?thesis
  proof (rule main_returns [where kzg = ref_wasmKzg and provider = "()" and wallet = "()"
        and addr = "''0x00''" and n = 5 and v = 0 and blob = blob and commitment = commitment
        and proof' = p
        and feeData = "\<lparr> fee_maxPriorityFeePerGas = Some 1, fee_maxFeePerGas = Some 2 \<rparr>"])
    show "make_blob ?data = Inr blob"
      by (rule blob)
    show "blobToKZGCommitment ref_wasmKzg ?hex = Inr commitment"
      by (rule c)
    show "outcome (sidecar_proof_for ref_ethers_world ref_wasmKzg eip ?hex commitment) = Inr p"
      by (rule p)
  qed (simp_all add: ref_ethers_world_def ref_ethers_def)
qed

subsection \<open>Case-insensitive comparison\<close>

lemma toLowerChar_hexDigit:
  assumes "hexDigitValue c = Some v" and "hexDigitValue d = Some v"
  shows "toLowerChar c = toLowerChar d"
proof -
  define n where "n = (of_char c :: nat)"
  define m where "m = (of_char d :: nat)"
  have rt: "char_of n = c" "char_of m = d"
    by (simp_all add: n_def m_def)
  have "n = m \<or> (n = m + 32 \<and> 65 \<le> m \<and> m \<le> 70) \<or> (m = n + 32 \<and> 65 \<le> n \<and> n \<le> 70)"
    using assms unfolding hexDigitValue_def Let_def n_def [symmetric] m_def [symmetric]
    by (auto split: if_splits)
  then consider "n = m" | "n = m + 32" "65 \<le> m" "m \<le> 70" | "m = n + 32" "65 \<le> n" "n \<le> 70"
    by blast
  then show ?thesis
  proof cases
    case 1
    then have "c = d"
      using rt by metis
    then show ?thesis by simp
  next
    case 2
    have "toLowerChar d = char_of (m + 32)"
      using 2 unfolding toLowerChar_def Let_def m_def [symmetric] by simp
    also have "\<dots> = c"
      using 2 rt by simp
    finally have d: "toLowerChar d = c" .
    have "toLowerChar c = c"
      using 2 unfolding toLowerChar_def Let_def n_def [symmetric] by simp
    with d show ?thesis by simp
  next
    case 3
    have "toLowerChar c = char_of (n + 32)"
      using 3 unfolding toLowerChar_def Let_def n_def [symmetric] by simp
    also have "\<dots> = d"
      using 3 rt by simp
    finally have c: "toLowerChar c = d" .
    have "toLowerChar d = d"
      using 3 unfolding toLowerChar_def Let_def m_def [symmetric] by simp
    with c show ?thesis by simp
  qed
qed

lemma toLowerCase_same_digits:
  "same_digits a b \<Longrightarrow> toLowerCase a = toLowerCase b"
  unfolding same_digits_def toLowerCase_def
  by (induction a b rule: list_all2_induct) (auto intro: toLowerChar_hexDigit)

lemma hexDigitValue_toLowerChar:
  "hexDigitValue c \<noteq> None \<Longrightarrow> hexDigitValue (toLowerChar c) = hexDigitValue c"
  by (auto simp: hexDigitValue_def toLowerChar_def Let_def split: if_splits)

lemma same_digits_of_lower:
  assumes "toLowerCase a = toLowerCase b"
    and "\<forall>c \<in> set a. hexDigitValue c \<noteq> None" and "\<forall>d \<in> set b. hexDigitValue d \<noteq> None"
  shows "same_digits a b"
  using assms unfolding same_digits_def toLowerCase_def
proof (induction a arbitrary: b)
  case Nil
  then show ?case by simp
next
  case (Cons c a)
  then obtain d b' where b: "b = d # b'"
    by (cases b) auto
  from Cons.prems b have cd: "toLowerChar c = toLowerChar d" and rest: "map toLowerChar a = map toLowerChar b'"
    by simp_all
  from Cons.prems b have hc: "hexDigitValue c \<noteq> None" and hd: "hexDigitValue d \<noteq> None"
    by simp_all
  have "hexDigitValue c = hexDigitValue (toLowerChar c)"
    using hc by (simp add: hexDigitValue_toLowerChar)
  also have "\<dots> = hexDigitValue d"
    using cd hd by (simp add: hexDigitValue_toLowerChar)
  finally have "hexDigitValue c = hexDigitValue d" .
  moreover have "list_all2 (\<lambda>c d. hexDigitValue c \<noteq> None \<and> hexDigitValue c = hexDigitValue d) a b'"
    using Cons.IH [OF rest] Cons.prems b by simp
  ultimately show ?case
    using b hc by simp
qed

section \<open>The claims\<close>

subsection \<open>The comparison of hex strings\<close>

text \<open>
  Claim C8. Every comparison of an expected with a computed value in the scripts goes
  through \<open>equalHex\<close>. On two strings, \<open>equalHex\<close> returns \<open>true\<close> exactly when
  their lowercasings are equal. Hence two hex strings \<open>0x...\<close> whose digits have the
  same values (they encode the same bytes and differ at most in the case of the letters
  a to f) compare equal and the check built on the comparison does not throw; and two
  hex strings that compare equal have the same digit values.
\<close>

theorem equalHex_case_insensitive:
  "equalHex (Some a) (Some b) = Inr (toLowerCase a = toLowerCase b)
   \<and> (same_digits a b \<longrightarrow>
        equalHex (Some (''0x'' @ a)) (Some (''0x'' @ b)) = Inr True
      \<and> outcome (require_equalHex (Some (''0x'' @ a)) (Some (''0x'' @ b)) msg) = Inr ())
   \<and> ((\<forall>c \<in> set a. hexDigitValue c \<noteq> None) \<and> (\<forall>d \<in> set b. hexDigitValue d \<noteq> None)
        \<and> equalHex (Some (''0x'' @ a)) (Some (''0x'' @ b)) = Inr True
      \<longrightarrow> same_digits a b)"
proof (intro conjI impI)
  show "equalHex (Some a) (Some b) = Inr (toLowerCase a = toLowerCase b)"
    by (simp add: equalHex_def)
next
  assume "same_digits a b"
  then have l: "toLowerCase a = toLowerCase b"
    by (rule toLowerCase_same_digits)
  then show "equalHex (Some (''0x'' @ a)) (Some (''0x'' @ b)) = Inr True"
    by (simp add: equalHex_def toLowerCase_def)
  from l show "outcome (require_equalHex (Some (''0x'' @ a)) (Some (''0x'' @ b)) msg) = Inr ()"
    by (simp add: outcome_require_equalHex toLowerCase_def)
next
  assume h: "(\<forall>c \<in> set a. hexDigitValue c \<noteq> None) \<and> (\<forall>d \<in> set b. hexDigitValue d \<noteq> None)
        \<and> equalHex (Some (''0x'' @ a)) (Some (''0x'' @ b)) = Inr True"
  then have "toLowerCase a = toLowerCase b"
    by (simp add: equalHex_def toLowerCase_def)
  with h show "same_digits a b"
    by (simp add: same_digits_of_lower)
qed

theorem equalHex_case_insensitive_witness:
  "same_digits ''ABcdEF01'' ''abCDef01''
   \<and> equalHex (Some ''0xABcdEF01'') (Some ''0xabCDef01'') = Inr True
   \<and> outcome (require_equalHex (Some ''0xABcdEF01'') (Some ''0xabCDef01'') ''Proof mismatch'')
     = Inr ()
   \<and> \<not> same_digits ''ab'' ''ac''
   \<and> equalHex (Some ''0xab'') (Some ''0xac'') = Inr False"
proof -
  have h: "same_digits ''ABcdEF01'' ''abCDef01''"
    by code_simp
  have n: "\<not> same_digits ''ab'' ''ac''"
    by code_simp
  have d: "(\<forall>c \<in> set ''ab''. hexDigitValue c \<noteq> None) \<and> (\<forall>d \<in> set ''ac''. hexDigitValue d \<noteq> None)"
    by code_simp
  have e: "equalHex (Some ''0xab'') (Some ''0xac'') = Inr False"
    using equalHex_case_insensitive [of "''ab''" "''ac''"] n d
    by (cases "toLowerCase ''0xab'' = toLowerCase ''0xac''") (auto simp: equalHex_def)
  show ?thesis
    using equalHex_case_insensitive [of "''ABcdEF01''" "''abCDef01''"] h n e by simp
qed

subsection \<open>Experiment 2: the versioned hash\<close>



subsection \<open>Experiment 6: the two backends\<close>



subsection \<open>Experiment 8: recovery of the cells\<close>



subsection \<open>Recomputation in later experiments\<close>




subsection \<open>The private key\<close>




subsection \<open>The blob of the ethers script\<close>

text \<open>
  Claim C6. The blob the script constructs is a buffer of exactly 32 (bytes per field
  element) times 4096 (field elements per blob) bytes that starts with the payload and
  is zero everywhere after it. This holds for every payload that fits; a longer one
  makes \<open>set\<close> throw a RangeError. In a run of \<open>main\<close> that reaches its end, the
  blob put into the transaction is the hex string of such a buffer around the bytes of
  \<open>Long live the BLOBs!\<close>.
\<close>

theorem blob_is_zero_padded:
  "BYTES_PER_FIELD_ELEMENT * FIELD_ELEMENTS_PER_BLOB = 32 * 4096
   \<and> (length data \<le> 32 * 4096 \<longrightarrow>
        (\<exists>blob. make_blob data = Inr blob \<and> zero_padded data blob
           \<and> (\<forall>i. length data \<le> i \<and> i < 32 * 4096 \<longrightarrow> blob ! i = 0)))
   \<and> (length data > 32 * 4096 \<longrightarrow> make_blob data = Inl RangeError)
   \<and> (outcome (main EW key eip) = Inr tx \<longrightarrow>
        (\<exists>blob e. make_blob (toUtf8Bytes (ethers EW) ''Long live the BLOBs!'') = Inr blob
           \<and> zero_padded (toUtf8Bytes (ethers EW) ''Long live the BLOBs!'') blob
           \<and> tx_blobs tx = Some [e]
           \<and> blob_data e = hexlify (ethers EW) blob))"
proof (intro conjI impI)
  show "BYTES_PER_FIELD_ELEMENT * FIELD_ELEMENTS_PER_BLOB = 32 * 4096"
    by (simp add: BYTES_PER_FIELD_ELEMENT_def FIELD_ELEMENTS_PER_BLOB_def)
  show "\<exists>blob. make_blob data = Inr blob \<and> zero_padded data blob
           \<and> (\<forall>i. length data \<le> i \<and> i < 32 * 4096 \<longrightarrow> blob ! i = 0)"
    if "length data \<le> 32 * 4096"
    using that by (auto simp: make_blob_fits zero_padded_def nth_append)
  show "make_blob data = Inl RangeError" if "length data > 32 * 4096"
    using that by (rule make_blob_too_long)
  show "\<exists>blob e. make_blob (toUtf8Bytes (ethers EW) ''Long live the BLOBs!'') = Inr blob
           \<and> zero_padded (toUtf8Bytes (ethers EW) ''Long live the BLOBs!'') blob
           \<and> tx_blobs tx = Some [e]
           \<and> blob_data e = hexlify (ethers EW) blob"
    if "outcome (main EW key eip) = Inr tx"
  proof -
    from main_Inr [OF that] obtain blob commitment p where
      b: "make_blob (toUtf8Bytes (ethers EW) ''Long live the BLOBs!'') = Inr blob"
      and t: "tx_blobs tx = Some [\<lparr> blob_data = hexlify (ethers EW) blob,
                                  blob_commitment = commitment, blob_proof = p \<rparr>]"
      by blast
    from make_blob_Inr [OF b]
    have "zero_padded (toUtf8Bytes (ethers EW) ''Long live the BLOBs!'') blob"
      by (simp add: zero_padded_def)
    with b t show ?thesis
      by simp
  qed
qed

theorem blob_is_zero_padded_witness:
  "length (toUtf8Bytes (ethers ref_ethers_world) ''Long live the BLOBs!'') = 20
   \<and> (\<exists>blob. make_blob (toUtf8Bytes (ethers ref_ethers_world) ''Long live the BLOBs!'') = Inr blob
         \<and> zero_padded (toUtf8Bytes (ethers ref_ethers_world) ''Long live the BLOBs!'') blob
         \<and> (\<forall>i. 20 \<le> i \<and> i < 32 * 4096 \<longrightarrow> blob ! i = 0))
   \<and> make_blob (replicate (32 * 4096 + 1) 7) = Inl RangeError
   \<and> (\<exists>tx blob e. outcome (main ref_ethers_world ''0xkey'' (Some ''4844'')) = Inr tx
         \<and> zero_padded (toUtf8Bytes (ethers ref_ethers_world) ''Long live the BLOBs!'') blob
         \<and> tx_blobs tx = Some [e]
         \<and> blob_data e = hexlify (ethers ref_ethers_world) blob)"
proof -
  let ?data = "toUtf8Bytes (ethers ref_ethers_world) ''Long live the BLOBs!''"
  have len: "length ?data = 20"
    by (simp add: ref_ethers_world_def ref_ethers_def)
  have fits: "\<exists>blob. make_blob ?data = Inr blob \<and> zero_padded ?data blob
         \<and> (\<forall>i. 20 \<le> i \<and> i < 32 * 4096 \<longrightarrow> blob ! i = 0)"
    using blob_is_zero_padded [of ?data, THEN conjunct2, THEN conjunct1] len
    by simp
  have long: "make_blob (replicate (32 * 4096 + 1) 7) = Inl RangeError"
    using blob_is_zero_padded [of "replicate (32 * 4096 + 1) 7", THEN conjunct2, THEN conjunct2,
        THEN conjunct1]
    by simp
  obtain tx where tx: "outcome (main ref_ethers_world ''0xkey'' (Some ''4844'')) = Inr tx"
    using ref_main_returns by blast
  have run: "\<exists>tx blob e. outcome (main ref_ethers_world ''0xkey'' (Some ''4844'')) = Inr tx
         \<and> zero_padded ?data blob
         \<and> tx_blobs tx = Some [e]
         \<and> blob_data e = hexlify (ethers ref_ethers_world) blob"
    using blob_is_zero_padded [of _ ref_ethers_world "''0xkey''" "Some ''4844''" tx,
        THEN conjunct2, THEN conjunct2, THEN conjunct2] tx
    by blast
  show ?thesis
    by (intro conjI) (rule len fits long run)+
qed

subsection \<open>The sidecar of the ethers script\<close>

text \<open>
  Claim C10. In a run of \<open>main\<close> that reaches its end, the transaction carries one
  blob whose commitment is the backend's commitment of the blob. In mode \<open>4844\<close> its
  proof is the single proof \<open>computeBlobKZGProof\<close> returned for the blob and that
  commitment; in mode \<open>7594\<close> it is ethers' \<open>concat\<close> of all the proofs
  \<open>computeCellsAndKZGProofs\<close> returned for the blob. \<open>blobWrapperVersion\<close> is 1
  in mode \<open>7594\<close> and is not assigned in any other mode.
\<close>

theorem sidecar_proof_by_mode:
  assumes "outcome (main EW key eip) = Inr tx"
  shows "\<exists>kzg blob commitment proof'.
           ethers_loadKZG EW = Inr kzg
         \<and> make_blob (toUtf8Bytes (ethers EW) ''Long live the BLOBs!'') = Inr blob
         \<and> blobToKZGCommitment kzg (hexlify (ethers EW) blob) = Inr commitment
         \<and> tx_blobs tx = Some [\<lparr> blob_data = hexlify (ethers EW) blob,
                                  blob_commitment = commitment, blob_proof = proof' \<rparr>]
         \<and> (eip = Some ''4844'' \<longrightarrow>
              computeBlobKZGProof kzg (hexlify (ethers EW) blob) commitment = Inr proof')
         \<and> (eip = Some ''7594'' \<longrightarrow>
              (\<exists>cp. computeCellsAndKZGProofs kzg (hexlify (ethers EW) blob) = Inr cp
                 \<and> concat_data (ethers EW) (proofs cp) = Inr proof'))
         \<and> (tx_blobWrapperVersion tx = Some 1 \<longleftrightarrow> eip = Some ''7594'')
         \<and> (eip \<noteq> Some ''7594'' \<longrightarrow> tx_blobWrapperVersion tx = None)"
proof -
  from main_Inr [OF assms] obtain kzg blob commitment proof' where
    m: "ethers_loadKZG EW = Inr kzg"
       "make_blob (toUtf8Bytes (ethers EW) ''Long live the BLOBs!'') = Inr blob"
       "blobToKZGCommitment kzg (hexlify (ethers EW) blob) = Inr commitment"
       "outcome (sidecar_proof_for EW kzg eip (hexlify (ethers EW) blob) commitment) = Inr proof'"
       "tx_blobs tx = Some [\<lparr> blob_data = hexlify (ethers EW) blob,
                                  blob_commitment = commitment, blob_proof = proof' \<rparr>]"
       "tx_blobWrapperVersion tx = (if eip = Some ''7594'' then Some 1 else None)"
    by blast
  have p4: "eip = Some ''4844'' \<longrightarrow>
              computeBlobKZGProof kzg (hexlify (ethers EW) blob) commitment = Inr proof'"
    using m(4) by (auto simp: sidecar_proof_for_def)
  have p7: "eip = Some ''7594'' \<longrightarrow>
              (\<exists>cp. computeCellsAndKZGProofs kzg (hexlify (ethers EW) blob) = Inr cp
                 \<and> concat_data (ethers EW) (proofs cp) = Inr proof')"
    using m(4) by (auto simp: sidecar_proof_for_def outcome_bind_Inr)
  show ?thesis
    using m(1,2,3,5,6) p4 p7 by auto
qed

theorem sidecar_proof_by_mode_witness:
  "(\<exists>tx blob commitment p.
       outcome (main ref_ethers_world ''0xkey'' (Some ''4844'')) = Inr tx
     \<and> tx_blobs tx = Some [\<lparr> blob_data = hexlify (ethers ref_ethers_world) blob,
                              blob_commitment = commitment, blob_proof = p \<rparr>]
     \<and> computeBlobKZGProof ref_wasmKzg (hexlify (ethers ref_ethers_world) blob) commitment = Inr p
     \<and> tx_blobWrapperVersion tx = None)
   \<and> (\<exists>tx blob commitment.
       outcome (main ref_ethers_world ''0xkey'' (Some ''7594'')) = Inr tx
     \<and> tx_blobs tx = Some [\<lparr> blob_data = hexlify (ethers ref_ethers_world) blob,
                              blob_commitment = commitment, blob_proof = ''0xaabb'' \<rparr>]
     \<and> tx_blobWrapperVersion tx = Some 1)"
proof -
  have kzg: "ethers_loadKZG ref_ethers_world = Inr k \<longleftrightarrow> k = ref_wasmKzg" for k
    by (auto simp: ref_ethers_world_def)
  obtain tx4 where tx4: "outcome (main ref_ethers_world ''0xkey'' (Some ''4844'')) = Inr tx4"
    using ref_main_returns by blast
  have m4: "\<exists>tx blob commitment p.
       outcome (main ref_ethers_world ''0xkey'' (Some ''4844'')) = Inr tx
     \<and> tx_blobs tx = Some [\<lparr> blob_data = hexlify (ethers ref_ethers_world) blob,
                              blob_commitment = commitment, blob_proof = p \<rparr>]
     \<and> computeBlobKZGProof ref_wasmKzg (hexlify (ethers ref_ethers_world) blob) commitment = Inr p
     \<and> tx_blobWrapperVersion tx = None"
    using sidecar_proof_by_mode [OF tx4] tx4 by (auto simp: kzg)
  obtain tx7 where tx7: "outcome (main ref_ethers_world ''0xkey'' (Some ''7594'')) = Inr tx7"
    using ref_main_returns by blast
  have cat: "computeCellsAndKZGProofs ref_wasmKzg h = Inr cp
      \<Longrightarrow> concat_data (ethers ref_ethers_world) (proofs cp) = Inr p \<Longrightarrow> p = ''0xaabb''" for h cp p
    by (auto simp: ref_wasmKzg_def ref_ethers_world_def ref_ethers_def)
  have m7: "\<exists>tx blob commitment.
       outcome (main ref_ethers_world ''0xkey'' (Some ''7594'')) = Inr tx
     \<and> tx_blobs tx = Some [\<lparr> blob_data = hexlify (ethers ref_ethers_world) blob,
                              blob_commitment = commitment, blob_proof = ''0xaabb'' \<rparr>]
     \<and> tx_blobWrapperVersion tx = Some 1"
    using sidecar_proof_by_mode [OF tx7] tx7 by (auto simp: kzg dest: cat)
  show ?thesis
    by (intro conjI) (rule m4 m7)+
qed

subsection \<open>The check on the number of blobs\<close>

text \<open>
  Claim C7, as the code has it. The script loads both KZG backends before it builds the
  blobs: \<open>cKzg.loadTrustedSetup\<close>, \<open>loadKZG\<close> and \<open>wasmKzg.loadTrustedSetup\<close> are
  calls into the KZG libraries that come before the check. Here a \<open>toBlobs\<close> that
  returns no blob: the script throws, after those three calls.
\<close>

theorem backends_loaded_before_blob_check:
  "script_index ref_world_no_blob (Some ''0xkey'')
     = ([PrivateKeyToAccount, CreateWalletClient, CreatePublicClient,
         C_loadTrustedSetup, LoadKZG, W_loadTrustedSetup],
        Inl (Error ''Only one blob is assumed in this example''))
   \<and> filter is_kzg_call (trace (script_index ref_world_no_blob (Some ''0xkey'')))
     = [C_loadTrustedSetup, LoadKZG, W_loadTrustedSetup]"
proof -
  have run: "script_index ref_world_no_blob (Some ''0xkey'')
     = ([PrivateKeyToAccount, CreateWalletClient, CreatePublicClient,
         C_loadTrustedSetup, LoadKZG, W_loadTrustedSetup],
        Inl (Error ''Only one blob is assumed in this example''))"
    by code_simp
  show ?thesis
    unfolding run by (simp add: trace_def)
qed

text \<open>
  Claim C7, amended. When the calls of the start-up return and \<open>toBlobs\<close> produces a
  list whose length is not 1, \<open>experimentWithBlob\<close> throws
  \<open>Only one blob is assumed in this example\<close> after the six calls of the start-up
  (account, two clients, the loading of the two KZG backends) and before any KZG
  computation on a blob and any network call. When the length is 1 it does not throw that
  error: it goes on with the experiments on that blob. This holds for both experiment
  scripts.
\<close>

theorem one_blob_guard:
  assumes "privateKeyToAccount (viem W) key = Inr account"
    and "createWalletClient (viem W) account = Inr u1"
    and "createPublicClient (viem W) = Inr u2"
    and "loadTrustedSetup (cKzg W) 0 mainnetTrustedSetupPath = Inr u3"
    and "loadKZG W = Inr wasmKzg"
    and "loadTrustedSetup_wasm wasmKzg 0 = Inr u4"
    and "toBlobs (viem W) (stringToHex (viem W) payload) = Inr blobs"
    and "experiments = experiments_index \<or> experiments = experiments_cells"
  shows "(length blobs \<noteq> 1 \<longrightarrow>
            outcome (experimentWithBlob W payload experiments key V send) = Inl (Error only_one_blob)
          \<and> trace (experimentWithBlob W payload experiments key V send) = start_up_calls
          \<and> filter blob_computation_or_network
               (trace (experimentWithBlob W payload experiments key V send)) = [])
       \<and> (length blobs = 1 \<longrightarrow>
            outcome (experimentWithBlob W payload experiments key V send) \<noteq> Inl (Error only_one_blob)
          \<and> outcome (experimentWithBlob W payload experiments key V send) =
              outcome (experiments W account wasmKzg blobs (blobs ! 0) V send)
          \<and> trace (experimentWithBlob W payload experiments key V send) =
              start_up_calls @ trace (experiments W account wasmKzg blobs (blobs ! 0) V send))"
proof -
  note s = start_up_run [OF assms(1-7)]
  have calls: "filter blob_computation_or_network start_up_calls = []"
    by (simp add: start_up_calls_def blob_computation_or_network_def)
  have no: "outcome (experiments W account wasmKzg blobs (blobs ! 0) V send) \<noteq> Inl (Error only_one_blob)"
    using assms(8)
      avoids_experiments_index [of W account wasmKzg blobs "blobs ! 0" V send]
      avoids_experiments_cells [of W account wasmKzg blobs "blobs ! 0" V send]
    by (auto simp: avoids_def)
  have o: "outcome (experimentWithBlob W payload experiments key V send) =
      (if length blobs \<noteq> 1 then Inl (Error only_one_blob)
       else outcome (experiments W account wasmKzg blobs (blobs ! 0) V send))"
    by (simp add: experimentWithBlob_def s outcome_bind) (simp add: outcome_def)
  have t: "trace (experimentWithBlob W payload experiments key V send) =
      (if length blobs \<noteq> 1 then start_up_calls
       else start_up_calls @ trace (experiments W account wasmKzg blobs (blobs ! 0) V send))"
    by (simp add: experimentWithBlob_def s trace_bind) (simp add: outcome_def trace_def)
  show ?thesis
    using calls no by (simp add: o t)
qed

theorem one_blob_guard_witness:
  "toBlobs (viem ref_world_no_blob) (stringToHex (viem ref_world_no_blob) ''hello world'') = Inr []
   \<and> outcome (experimentWithBlob ref_world_no_blob ''hello world'' experiments_index ''0xkey'' [1] True)
     = Inl (Error only_one_blob)
   \<and> trace (experimentWithBlob ref_world_no_blob ''hello world'' experiments_index ''0xkey'' [1] True)
     = start_up_calls
   \<and> toBlobs (viem ref_world) (stringToHex (viem ref_world) ''hello world'') = Inr [ref_blob]
   \<and> outcome (experimentWithBlob ref_world ''hello world'' experiments_index ''0xkey'' [1] True)
     \<noteq> Inl (Error only_one_blob)
   \<and> trace (experimentWithBlob ref_world ''hello world'' experiments_index ''0xkey'' [1] True)
     = start_up_calls @ trace (experiments_index ref_world () ref_wasmKzg [ref_blob] ref_blob [1] True)"
proof -
  have a: "privateKeyToAccount (viem ref_world) ''0xkey'' = Inr ()"
    "createWalletClient (viem ref_world) () = Inr ()"
    "createPublicClient (viem ref_world) = Inr ()"
    "loadTrustedSetup (cKzg ref_world) 0 mainnetTrustedSetupPath = Inr ()"
    "loadKZG ref_world = Inr ref_wasmKzg"
    "loadTrustedSetup_wasm ref_wasmKzg 0 = Inr ()"
    by (simp_all add: ref_world_def ref_viem_def ref_cKzg_def ref_wasmKzg_def)
  have b: "toBlobs (viem ref_world) (stringToHex (viem ref_world) ''hello world'') = Inr [ref_blob]"
    by code_simp
  have a': "privateKeyToAccount (viem ref_world_no_blob) ''0xkey'' = Inr ()"
    "createWalletClient (viem ref_world_no_blob) () = Inr ()"
    "createPublicClient (viem ref_world_no_blob) = Inr ()"
    "loadTrustedSetup (cKzg ref_world_no_blob) 0 mainnetTrustedSetupPath = Inr ()"
    "loadKZG ref_world_no_blob = Inr ref_wasmKzg"
    "loadTrustedSetup_wasm ref_wasmKzg 0 = Inr ()"
    by (simp_all add: ref_world_no_blob_def ref_world_def ref_viem_def ref_cKzg_def
        ref_wasmKzg_def)
  have b': "toBlobs (viem ref_world_no_blob) (stringToHex (viem ref_world_no_blob) ''hello world'')
      = Inr []"
    by (simp add: ref_world_no_blob_def)
  have e: "experiments_index = (experiments_index :: (unit, unit) experiments)
      \<or> experiments_index = (experiments_cells :: (unit, unit) experiments)"
    by simp
  have len0: "length ([] :: hex list) \<noteq> 1"
    by simp
  have len1: "length [ref_blob] = 1"
    by simp
  note none = one_blob_guard [OF a' b' e, of "[1]" True, THEN conjunct1, THEN mp, OF len0]
  note one = one_blob_guard [OF a b e, of "[1]" True, THEN conjunct2, THEN mp, OF len1,
      unfolded nth_Cons_0]
  have n1: "outcome (experimentWithBlob ref_world_no_blob ''hello world'' experiments_index
       ''0xkey'' [1] True) = Inl (Error only_one_blob)"
    by (rule none [THEN conjunct1])
  have n2: "trace (experimentWithBlob ref_world_no_blob ''hello world'' experiments_index
       ''0xkey'' [1] True) = start_up_calls"
    by (rule none [THEN conjunct2, THEN conjunct1])
  have o1: "outcome (experimentWithBlob ref_world ''hello world'' experiments_index
       ''0xkey'' [1] True) \<noteq> Inl (Error only_one_blob)"
    by (rule one [THEN conjunct1])
  have o2: "trace (experimentWithBlob ref_world ''hello world'' experiments_index ''0xkey'' [1] True)
     = start_up_calls @ trace (experiments_index ref_world () ref_wasmKzg [ref_blob] ref_blob [1] True)"
    by (rule one [THEN conjunct2, THEN conjunct2])
  show ?thesis
    by (intro conjI) (rule b' n1 n2 b o1 o2)+
qed

subsection \<open>Failed verifications\<close>





end
